theory Spec2Isabelle
  imports Main "HOL-Library.Sublist"
begin

section \<open>Raw records\<close>

text \<open>
  A raw record is what the file parser hands to \<^verbatim>\<open>content-source.ts\<close>: an untyped
  JavaScript value. Objects are association lists in enumeration order (the keys of one
  object are distinct, and those that are array indices come first, in ascending order:
  \<open>enumerationOrder\<close> below), arrays are lists, a hole of an array reads as
  \<open>JUndefined\<close>. Numbers are integers here, meant up to the magnitude \<open>2\<^sup>5\<^sup>3\<close> to
  which a double holds every integer: the source never computes with a number of the
  record, it only tests it for zero and uses it as a property key.
\<close>

datatype raw =
    JUndefined
  | JNull
  | JBool bool
  | JNum int
  | JStr string
  | JArr "raw list"
  | JObj "(string \<times> raw) list"

text \<open>JavaScript's truthiness, the test behind \<^verbatim>\<open>!fieldValue\<close>.\<close>

fun truthy :: "raw \<Rightarrow> bool" where
  "truthy JUndefined = False"
| "truthy JNull = False"
| "truthy (JBool b) = b"
| "truthy (JNum n) = (n \<noteq> 0)"
| "truthy (JStr s) = (s \<noteq> [])"
| "truthy (JArr xs) = True"
| "truthy (JObj kvs) = True"

text \<open>The operand test of \<^verbatim>\<open>??\<close>.\<close>

fun nullish :: "raw \<Rightarrow> bool" where
  "nullish JUndefined = True"
| "nullish JNull = True"
| "nullish v = False"

text \<open>
  The conditions the source raises, as values. \<open>Unmodelled\<close> is not a condition of the
  source: it marks the places where the source goes on in a way this development does
  not follow. They are: the conversion of a character of a string against a field spec
  that is named by the index of the character; a model looked up under \<^verbatim>\<open>__proto__\<close>
  or under a number of a magnitude above \<open>2\<^sup>5\<^sup>3\<close>; a field name that
  lodash reads as a path of several keys; a named property stored on an array.
\<close>

datatype error =
    TypeError
  | ReferenceError
  | UnsupportedType string
  | Unmodelled

subsection \<open>Decimal numerals and property keys\<close>

definition digit :: "nat \<Rightarrow> char" where
  "digit d = ''0123456789'' ! d"

function decimal :: "nat \<Rightarrow> string" where
  "decimal n = (if n < 10 then [digit n] else decimal (n div 10) @ [digit (n mod 10)])"
  by pat_completeness auto
termination
  by (relation "measure id") auto

declare decimal.simps [simp del]

text \<open>The value of a digit; another character has the value ten.\<close>

definition digitValue :: "char \<Rightarrow> nat" where
  "digitValue c = length (takeWhile (\<lambda>d. d \<noteq> c) ''0123456789'')"

definition parseNat :: "string \<Rightarrow> nat" where
  "parseNat s = foldl (\<lambda>n c. 10 * n + digitValue c) 0 s"

definition showInt :: "int \<Rightarrow> string" where
  "showInt i = (if i < 0 then CHR ''-'' # decimal (nat (- i)) else decimal (nat i))"

fun joinWith :: "string \<Rightarrow> string list \<Rightarrow> string" where
  "joinWith sep [] = []"
| "joinWith sep [s] = s"
| "joinWith sep (s # t # ss) = s @ sep @ joinWith sep (t # ss)"

text \<open>A key that is the decimal numeral of a natural number.\<close>

definition isIndex :: "string \<Rightarrow> bool" where
  "isIndex k = (decimal (parseNat k) = k)"

text \<open>
  An array index is such a key below \<open>2\<^sup>3\<^sup>2 - 1\<close>. An object enumerates the keys that
  are array indices first, in ascending order, and its other keys after them, in the
  order of their creation.
\<close>

definition arrayIndex :: "string \<Rightarrow> bool" where
  "arrayIndex k = (isIndex k \<and> parseNat k < 4294967295)"

lemma decimal_small: "n < 10 \<Longrightarrow> decimal n = [digit n]"
  by (simp add: decimal.simps[of n])

lemma decimal_big: "\<not> n < 10 \<Longrightarrow> decimal n = decimal (n div 10) @ [digit (n mod 10)]"
  by (simp add: decimal.simps[of n])

lemmas index_eval =
  isIndex_def parseNat_def digitValue_def digit_def decimal_small decimal_big

text \<open>
  The string a value becomes when it is used as a property key, as in
  \<^verbatim>\<open>modelMap[modelType]\<close>. An array is the join of its elements, null and
  undefined elements as the empty string. A number is its decimal numeral as long as
  its magnitude is at most \<open>2\<^sup>5\<^sup>3\<close>; beyond that JavaScript prints the shortest
  numeral that reads back as the same double, and from \<open>10\<^sup>2\<^sup>1\<close> on in exponent
  notation, which is not followed: such a number has no key here.
\<close>

fun propertyKey :: "raw \<Rightarrow> string option" where
  "propertyKey JUndefined = Some ''undefined''"
| "propertyKey JNull = Some ''null''"
| "propertyKey (JBool b) = Some (if b then ''true'' else ''false'')"
| "propertyKey (JNum n) = (if abs n \<le> 9007199254740992 then Some (showInt n) else None)"
| "propertyKey (JStr s) = Some s"
| "propertyKey (JArr xs) =
     map_option (joinWith '','')
       (those (map (\<lambda>x. if nullish x then Some [] else propertyKey x) xs))"
| "propertyKey (JObj kvs) = Some ''[object Object]''"

subsection \<open>Reading a raw value as a record or as a sequence\<close>

text \<open>
  \<^verbatim>\<open>Object.entries(v)\<close> and the rest pattern \<^verbatim>\<open>const { id, type, ...fields } = v\<close>:
  both raise a TypeError on null and undefined, find no own property in a number or a
  boolean, and find the elements of an array and the characters of a string under their
  indices.
\<close>

fun entries :: "raw \<Rightarrow> error + (string \<times> raw) list" where
  "entries (JObj kvs) = Inr kvs"
| "entries (JArr xs) = Inr (zip (map decimal [0..<length xs]) xs)"
| "entries (JNum n) = Inr []"
| "entries (JBool b) = Inr []"
| "entries JNull = Inl TypeError"
| "entries JUndefined = Inl TypeError"
| "entries (JStr s) = Inr (zip (map decimal [0..<length s]) (map (\<lambda>c. JStr [c]) s))"

fun isString :: "raw \<Rightarrow> bool" where
  "isString (JStr s) = True"
| "isString v = False"

text \<open>\<^verbatim>\<open>for (const item of v)\<close> and \<^verbatim>\<open>[...v]\<close>: arrays and strings are iterable.\<close>

fun iterate :: "raw \<Rightarrow> error + raw list" where
  "iterate (JArr xs) = Inr xs"
| "iterate (JStr s) = Inr (map (\<lambda>c. JStr [c]) s)"
| "iterate v = Inl TypeError"

text \<open>The value of an own property, \<open>JUndefined\<close> when there is none.\<close>

definition getProp :: "(string \<times> raw) list \<Rightarrow> string \<Rightarrow> raw" where
  "getProp kvs k = (case map_of kvs k of None \<Rightarrow> JUndefined | Some v \<Rightarrow> v)"

text \<open>What \<^verbatim>\<open>...fields\<close> keeps of \<^verbatim>\<open>const { id, type, ...fields } = v\<close>.\<close>

definition stripIdType :: "(string \<times> raw) list \<Rightarrow> (string \<times> raw) list" where
  "stripIdType kvs = filter (\<lambda>kv. fst kv \<noteq> ''id'' \<and> fst kv \<noteq> ''type'') kvs"

section \<open>Models and field specs\<close>

text \<open>
  \<^verbatim>\<open>items\<close> of a list field: absent, one spec, or an array of specs.
\<close>

datatype 'a items = NoItems | OneItem 'a | ManyItems "'a list"

text \<open>
  A field spec. An absent \<^verbatim>\<open>fields\<close> or \<^verbatim>\<open>models\<close> is the empty list: the source
  reads them through \<^verbatim>\<open>?? []\<close>, \<^verbatim>\<open>_.find\<close> and \<^verbatim>\<open>?.[0]\<close>, which treat both alike.
  Only the specs of a field list are looked up by name.
\<close>

datatype fieldspec =
  FieldSpec (fname: string) (ftype: string) (fitems: "fieldspec items")
            (ffields: "fieldspec list") (fmodels: "string list")

record model =
  mname :: string
  mfields :: "fieldspec list"

text \<open>The registry: the model stored under a name, if any.\<close>

type_synonym modelMap = "string \<Rightarrow> model option"

text \<open>
  The registry is a plain object, and \<^verbatim>\<open>modelMap[key]\<close> also finds what every object
  inherits from \<^verbatim>\<open>Object.prototype\<close>. Each of these members but \<^verbatim>\<open>__proto__\<close> is a
  function: it is truthy, its \<^verbatim>\<open>name\<close> is the second component below, and it has no
  \<^verbatim>\<open>fields\<close>.
\<close>

definition inheritedMembers :: "(string \<times> string) list" where
  "inheritedMembers =
     [(''constructor'', ''Object''),
      (''__defineGetter__'', ''__defineGetter__''),
      (''__defineSetter__'', ''__defineSetter__''),
      (''hasOwnProperty'', ''hasOwnProperty''),
      (''__lookupGetter__'', ''__lookupGetter__''),
      (''__lookupSetter__'', ''__lookupSetter__''),
      (''isPrototypeOf'', ''isPrototypeOf''),
      (''propertyIsEnumerable'', ''propertyIsEnumerable''),
      (''toString'', ''toString''),
      (''valueOf'', ''valueOf''),
      (''toLocaleString'', ''toLocaleString'')]"


text \<open>
  \<^verbatim>\<open>const model = modelMap[key]\<close> as the converter goes on to read it, through
  \<^verbatim>\<open>!model\<close>, \<^verbatim>\<open>model.name\<close> and \<^verbatim>\<open>model.fields ?? []\<close>: \<open>Inr None\<close> when there is
  no such property, the registered model when there is one, and for an inherited member
  the name and the empty field list the converter reads off it. Under \<^verbatim>\<open>__proto__\<close>
  the lookup finds the prototype itself, which has no name; that is not followed.
\<close>

definition lookupModel :: "modelMap \<Rightarrow> raw \<Rightarrow> error + model option" where
  "lookupModel modelMap key =
     (case propertyKey key of
        None \<Rightarrow> Inl Unmodelled
      | Some k \<Rightarrow>
          (case modelMap k of
             Some m \<Rightarrow> Inr (Some m)
           | None \<Rightarrow>
               if k = ''__proto__'' then Inl Unmodelled
               else (case map_of inheritedMembers k of
                       None \<Rightarrow> Inr None
                     | Some n \<Rightarrow> Inr (Some \<lparr>mname = n, mfields = []\<rparr>))))"

section \<open>Typed document fields\<close>

text \<open>
  \<^verbatim>\<open>DocumentField\<close> and \<^verbatim>\<open>UpdateOperationField\<close> have the same shapes, tagged by
  \<^verbatim>\<open>type\<close>: \<open>FValue tag value\<close> for the scalar-like tags, \<open>FList items\<close>,
  \<open>FObject fields\<close>, \<open>FModel modelName fields\<close>, \<open>FReference refType refId\<close>, and
  \<open>FImage fields\<close>.
\<close>

datatype field =
    FValue string raw
  | FList "field list"
  | FObject "(string \<times> field) list"
  | FModel string "(string \<times> field) list"
  | FReference string raw
  | FImage "(string \<times> field) list"

fun tagOf :: "field \<Rightarrow> string" where
  "tagOf (FValue t v) = t"
| "tagOf (FList items) = ''list''"
| "tagOf (FObject fs) = ''object''"
| "tagOf (FModel n fs) = ''model''"
| "tagOf (FReference t r) = ''reference''"
| "tagOf (FImage fs) = ''image''"

section \<open>The forward converter\<close>

definition scalarTags :: "string list" where
  "scalarTags = [''string'', ''slug'', ''text'', ''html'', ''url'', ''boolean'', ''number'',
     ''date'', ''datetime'', ''enum'', ''json'', ''style'', ''color'', ''markdown'']"

definition supportedTags :: "string list" where
  "supportedTags = scalarTags @ [''list'', ''object'', ''model'', ''reference'', ''image'']"

text \<open>The default of \<^verbatim>\<open>modelField.items ?? { type: 'string' }\<close>.\<close>

definition stringSpec :: fieldspec where
  "stringSpec = FieldSpec [] ''string'' NoItems [] []"

text \<open>\<^verbatim>\<open>type ?? modelField.models?.[0]\<close>\<close>

definition modelType :: "raw \<Rightarrow> fieldspec \<Rightarrow> raw" where
  "modelType t modelField =
     (if nullish t
      then (case fmodels modelField of [] \<Rightarrow> JUndefined | n # ns \<Rightarrow> JStr n)
      else t)"

text \<open>
  \<^verbatim>\<open>path.parse(p).name\<close> of Node (POSIX paths): trailing slashes are ignored, the
  base is the part after the last slash, and the name is the base without its
  extension, the last dot and what follows. A base has no extension when its last dot
  is its first character, or when it is \<^verbatim>\<open>..\<close> (but \<^verbatim>\<open>/..\<close> has the name \<^verbatim>\<open>.\<close>).
\<close>

definition stripSlashes :: "string \<Rightarrow> string" where
  "stripSlashes p = rev (dropWhile (\<lambda>c. c = CHR ''/'') (rev p))"

definition baseName :: "string \<Rightarrow> string" where
  "baseName p = rev (takeWhile (\<lambda>c. c \<noteq> CHR ''/'') (rev (stripSlashes p)))"

definition parseName :: "string \<Rightarrow> string" where
  "parseName p =
     (let b = baseName p; r = rev b; ext = takeWhile (\<lambda>c. c \<noteq> CHR ''.'') r
      in if length ext < length b - 1 \<and> \<not> (b = ''..'' \<and> stripSlashes p \<noteq> ''/..'')
         then rev (drop (Suc (length ext)) r)
         else b)"

text \<open>
  \<^verbatim>\<open>convertFields\<close> on the characters of a string, against the field list of a
  model. A character is passed over unless the field list has a spec named by its
  index, so without such a spec the result is the empty record
  (\<open>charFields_convertFields\<close> below). The conversion of a character against such a
  spec is not followed: a one-character string enumerates to itself, and under a model
  that declares a field \<^verbatim>\<open>0\<close> of its own type the source does not return.
\<close>

definition charFields ::
  "(string \<times> raw) list \<Rightarrow> fieldspec list \<Rightarrow> error + (string \<times> field) list" where
  "charFields kvs modelFields =
     (if list_ex (\<lambda>kv. find (\<lambda>f. fname f = fst kv) modelFields \<noteq> None) kvs
      then Inl Unmodelled else Inr [])"

text \<open>
  Nesting depth of list and object specs, for the termination of the converter.
\<close>

fun sdepth :: "fieldspec \<Rightarrow> nat" where
  "sdepth (FieldSpec n t its fs ms) =
     (if t = ''list'' then Suc (case its of OneItem s \<Rightarrow> sdepth s | _ \<Rightarrow> 0)
      else if t = ''object'' then Suc (Suc (sum_list (map sdepth fs)))
      else 0)"

definition idepth :: "fieldspec items \<Rightarrow> nat" where
  "idepth its = (case its of OneItem s \<Rightarrow> sdepth s | _ \<Rightarrow> 0)"

text \<open>
  Measures for the termination of the converter: every recursive call is on a part of
  the raw value, except that the items and the fields of a string are strings again;
  there the spec loses one level of nesting.
\<close>

definition entriesSize :: "(string \<times> raw) list \<Rightarrow> nat" where
  "entriesSize kvs = (if kvs = [] then 0 else Suc (sum_list (map (\<lambda>kv. size (snd kv)) kvs)))"

definition itemsSize :: "raw list \<Rightarrow> nat" where
  "itemsSize xs = (if xs = [] then 0 else Suc (sum_list (map size xs)))"

lemma sum_size_snd_le:
  "sum_list (map (\<lambda>kv. size (snd kv)) kvs)
     \<le> size_list (size_prod (\<lambda>_. 0) size) (kvs :: (string \<times> raw) list)"
  by (induction kvs) auto

lemma sum_size_le: "sum_list (map size xs) \<le> size_list size (xs :: raw list)"
  by (induction xs) auto

lemma iterate_size: "iterate v = Inr xs \<Longrightarrow> itemsSize xs \<le> Suc (size v)"
  using sum_size_le[of xs] by (cases v) (auto simp: comp_def itemsSize_def)

lemma snd_zip_indices: "map snd (zip (map f [0..<length xs]) xs) = xs"
  by (simp add: map_snd_zip)

lemma chars_size:
  "sum_list (map (\<lambda>kv. size (snd kv)) (zip ks (map (\<lambda>c. JStr [c]) s))) = 0"
proof -
  have "size (snd kv) = 0" if "kv \<in> set (zip ks (map (\<lambda>c. JStr [c]) s))" for kv
    using set_zip_rightD[of "fst kv" "snd kv" ks "map (\<lambda>c. JStr [c]) s"] that by auto
  then show ?thesis by simp
qed

lemma entries_size_le: "entries v = Inr kvs \<Longrightarrow> entriesSize kvs \<le> Suc (size v)"
proof (cases v)
  case (JArr xs)
  assume "entries v = Inr kvs"
  with JArr have kvs: "kvs = zip (map decimal [0..<length xs]) xs" by simp
  have "map (\<lambda>kv. size (snd kv)) kvs = map size (map snd kvs)" by simp
  also have "\<dots> = map size xs" unfolding kvs by (simp only: snd_zip_indices)
  finally have "sum_list (map (\<lambda>kv. size (snd kv)) kvs) = sum_list (map size xs)" by simp
  with sum_size_le[of xs] JArr show ?thesis by (simp add: entriesSize_def)
next
  case (JObj kvs')
  assume "entries v = Inr kvs"
  with JObj sum_size_snd_le[of kvs] show ?thesis by (auto simp: entriesSize_def)
next
  case (JStr s)
  assume "entries v = Inr kvs"
  with JStr chars_size[of "map decimal [0..<length s]" s] show ?thesis
    by (auto simp: entriesSize_def)
qed (auto simp: entriesSize_def)

lemma entries_size:
  "entries v = Inr kvs \<Longrightarrow> \<not> isString v \<Longrightarrow> entriesSize kvs < Suc (size v)"
proof (cases v)
  case (JArr xs)
  assume "entries v = Inr kvs"
  with JArr have kvs: "kvs = zip (map decimal [0..<length xs]) xs" by simp
  have "map (\<lambda>kv. size (snd kv)) kvs = map size (map snd kvs)" by simp
  also have "\<dots> = map size xs" unfolding kvs by (simp only: snd_zip_indices)
  finally have "sum_list (map (\<lambda>kv. size (snd kv)) kvs) = sum_list (map size xs)" by simp
  with sum_size_le[of xs] JArr show ?thesis by (simp add: entriesSize_def)
next
  case (JObj kvs')
  assume "entries v = Inr kvs"
  with JObj sum_size_snd_le[of kvs] show ?thesis by (auto simp: entriesSize_def)
qed (auto simp: entriesSize_def)

lemma strip_size: "entriesSize (stripIdType kvs) \<le> entriesSize kvs"
  using sum_list_filter_le_nat[of "\<lambda>kv. size (snd kv)"
      "\<lambda>kv. fst kv \<noteq> ''id'' \<and> fst kv \<noteq> ''type''" kvs]
  by (auto simp: entriesSize_def stripIdType_def)

lemma entriesSize_Cons:
  "entriesSize rest \<le> entriesSize (kv # rest)"
  "Suc (size (snd kv)) \<le> entriesSize (kv # rest)"
  by (auto simp: entriesSize_def)

lemma itemsSize_Cons:
  "itemsSize rest \<le> itemsSize (x # rest)"
  "Suc (size x) \<le> itemsSize (x # rest)"
  by (auto simp: itemsSize_def)

lemma sdepth_items: "ftype s = ''list'' \<Longrightarrow> idepth (fitems s) < sdepth s"
  by (cases s; cases "fitems s") (auto simp: idepth_def)

lemma sdepth_fields:
  "ftype s = ''object'' \<Longrightarrow> Suc (sum_list (map sdepth (ffields s))) < sdepth s"
  by (cases s) auto

lemma find_sdepth: "find P fs = Some f \<Longrightarrow> sdepth f < Suc (sum_list (map sdepth fs))"
  by (induction fs) (auto split: if_splits)

text \<open>
  \<^verbatim>\<open>convertFieldType\<close>, \<^verbatim>\<open>convertFields\<close> and the loop of the \<^verbatim>\<open>list\<close> case.
  \<open>Inr None\<close> is the source's \<^verbatim>\<open>return null\<close>. In \<open>convertItems\<close> an array of item
  specs has no \<^verbatim>\<open>type\<close> property, so the dispatch on it reaches the default branch
  and raises \<^verbatim>\<open>Unsupported type: undefined\<close>. The fields of a string are its
  characters; against the field list of a model they are converted by \<open>charFields\<close>.
\<close>

function convertFieldType :: "raw \<Rightarrow> fieldspec \<Rightarrow> modelMap \<Rightarrow> error + field option"
  and convertFields ::
    "(string \<times> raw) list \<Rightarrow> fieldspec list \<Rightarrow> modelMap \<Rightarrow> error + (string \<times> field) list"
  and convertItems :: "raw list \<Rightarrow> fieldspec items \<Rightarrow> modelMap \<Rightarrow> error + field list"
where
  "convertFieldType fieldValue modelField modelMap =
     (if ftype modelField \<in> set scalarTags then
        Inr (Some (FValue (ftype modelField) fieldValue))
      else if ftype modelField = ''list'' then
        (case iterate fieldValue of
           Inl e \<Rightarrow> Inl e
         | Inr xs \<Rightarrow>
             (case convertItems xs (fitems modelField) modelMap of
                Inl e \<Rightarrow> Inl e
              | Inr items \<Rightarrow> Inr (Some (FList items))))
      else if ftype modelField = ''object'' then
        (case entries fieldValue of
           Inl e \<Rightarrow> Inl e
         | Inr kvs \<Rightarrow>
             (case convertFields kvs (ffields modelField) modelMap of
                Inl e \<Rightarrow> Inl e
              | Inr fs \<Rightarrow> Inr (Some (FObject fs))))
      else if ftype modelField = ''model'' then
        (case entries fieldValue of
           Inl e \<Rightarrow> Inl e
         | Inr kvs \<Rightarrow>
             (case lookupModel modelMap (modelType (getProp kvs ''type'') modelField) of
                Inl e \<Rightarrow> Inl e
              | Inr None \<Rightarrow> Inr None
              | Inr (Some m) \<Rightarrow>
                  (case (if isString fieldValue then charFields (stripIdType kvs) (mfields m)
                         else convertFields (stripIdType kvs) (mfields m) modelMap) of
                     Inl e \<Rightarrow> Inl e
                   | Inr fs \<Rightarrow> Inr (Some (FModel (mname m) fs)))))
      else if ftype modelField = ''reference'' then
        Inr (Some (FReference ''document'' fieldValue))
      else if ftype modelField = ''image'' then
        (case fieldValue of
           JStr p \<Rightarrow>
             Inr (Some (FImage [(''title'', FValue ''string'' (JStr (parseName p))),
                                (''url'', FValue ''string'' fieldValue)]))
         | _ \<Rightarrow> Inl TypeError)
      else Inl (UnsupportedType (ftype modelField)))"
| "convertFields [] modelFields modelMap = Inr []"
| "convertFields ((fieldName, fieldValue) # rest) modelFields modelMap =
     (case find (\<lambda>f. fname f = fieldName) modelFields of
        None \<Rightarrow> convertFields rest modelFields modelMap
      | Some modelField \<Rightarrow>
          if \<not> truthy fieldValue then convertFields rest modelFields modelMap
          else
            (case convertFieldType fieldValue modelField modelMap of
               Inl e \<Rightarrow> Inl e
             | Inr None \<Rightarrow> convertFields rest modelFields modelMap
             | Inr (Some documentField) \<Rightarrow>
                 (case convertFields rest modelFields modelMap of
                    Inl e \<Rightarrow> Inl e
                  | Inr result \<Rightarrow> Inr ((fieldName, documentField) # result))))"
| "convertItems [] its modelMap = Inr []"
| "convertItems (item # rest) its modelMap =
     (case (case its of
              NoItems \<Rightarrow> convertFieldType item stringSpec modelMap
            | OneItem itemsModel \<Rightarrow> convertFieldType item itemsModel modelMap
            | ManyItems specs \<Rightarrow> Inl (UnsupportedType ''undefined'')) of
        Inl e \<Rightarrow> Inl e
      | Inr None \<Rightarrow> convertItems rest its modelMap
      | Inr (Some documentField) \<Rightarrow>
          (case convertItems rest its modelMap of
             Inl e \<Rightarrow> Inl e
           | Inr items \<Rightarrow> Inr (documentField # items)))"
  by pat_completeness auto
termination
  apply (relation "measures
     [case_sum (\<lambda>(v, s, m). Suc (size v))
        (case_sum (\<lambda>(kvs, fs, m). entriesSize kvs) (\<lambda>(xs, its, m). itemsSize xs)),
      case_sum (\<lambda>(v, s, m). sdepth s)
        (case_sum (\<lambda>(kvs, fs, m). Suc (sum_list (map sdepth fs)))
                  (\<lambda>(xs, its, m). idepth its)),
      case_sum (\<lambda>(v, s, m). 0)
        (case_sum (\<lambda>(kvs, fs, m). Suc (length kvs)) (\<lambda>(xs, its, m). Suc (length xs)))]")
  subgoal by simp
  subgoal for fieldValue modelField modelMap xs
    using iterate_size[of fieldValue xs] sdepth_items[of modelField] by auto
  subgoal for fieldValue modelField modelMap kvs
    using entries_size_le[of fieldValue kvs] sdepth_fields[of modelField] by auto
  subgoal for fieldValue modelField modelMap kvs m
    using entries_size[of fieldValue kvs] strip_size[of kvs] by auto
  subgoal for fieldName fieldValue rest
    using entriesSize_Cons(1)[of rest "(fieldName, fieldValue)"] by auto
  subgoal for fieldName fieldValue rest
    using entriesSize_Cons(1)[of rest "(fieldName, fieldValue)"] by auto
  subgoal for fieldName fieldValue rest modelFields modelMap modelField
    using find_sdepth[of _ modelFields modelField]
      entriesSize_Cons(2)[of "(fieldName, fieldValue)" rest] by auto
  subgoal for fieldName fieldValue rest
    using entriesSize_Cons(1)[of rest "(fieldName, fieldValue)"] by auto
  subgoal for fieldName fieldValue rest
    using entriesSize_Cons(1)[of rest "(fieldName, fieldValue)"] by auto
  subgoal for item rest
    using itemsSize_Cons(2)[of item rest] by (auto simp: idepth_def stringSpec_def)
  subgoal for item rest
    using itemsSize_Cons(2)[of item rest] by (auto simp: idepth_def)
  subgoal for item rest
    using itemsSize_Cons(1)[of rest item] by auto
  subgoal for item rest
    using itemsSize_Cons(1)[of rest item] by auto
  done

text \<open>
  \<^verbatim>\<open>convertDocument\<close>. The timestamps come from the file system
  (\<^verbatim>\<open>getFileDates\<close>) and are a parameter here; \<^verbatim>\<open>context\<close> is the empty object.
\<close>

record document =
  doc_type :: string
  doc_id :: string
  doc_modelName :: string
  doc_manageUrl :: string
  doc_status :: string
  doc_createdAt :: string
  doc_updatedAt :: string
  doc_fields :: "(string \<times> field) list"

definition convertDocument ::
  "string \<Rightarrow> string \<times> string \<Rightarrow> raw \<Rightarrow> modelMap \<Rightarrow> error + document option" where
  "convertDocument filePath dates data modelMap =
     (case entries data of
        Inl e \<Rightarrow> Inl e
      | Inr kvs \<Rightarrow>
          (case lookupModel modelMap (getProp kvs ''type'') of
             Inl e \<Rightarrow> Inl e
           | Inr None \<Rightarrow> Inr None
           | Inr (Some m) \<Rightarrow>
               (case (if isString data then charFields (stripIdType kvs) (mfields m)
                      else convertFields (stripIdType kvs) (mfields m) modelMap) of
                  Inl e \<Rightarrow> Inl e
                | Inr fs \<Rightarrow>
                    Inr (Some \<lparr>doc_type = ''document'', doc_id = filePath,
                      doc_modelName = mname m, doc_manageUrl = [], doc_status = ''published'',
                      doc_createdAt = fst dates, doc_updatedAt = snd dates,
                      doc_fields = fs\<rparr>))))"

section \<open>The reverse mapper\<close>

text \<open>
  The callback of the \<^verbatim>\<open>object\<close> case writes to \<^verbatim>\<open>result\<close>, which is a
  \<^verbatim>\<open>const\<close> of the \<^verbatim>\<open>model\<close> case in the same switch block and is not initialised
  when the \<^verbatim>\<open>object\<close> case runs. Reading it raises a ReferenceError where the
  \<^verbatim>\<open>const\<close> is kept (\<open>ES2015\<close> and later); compiled down to \<open>ES5\<close> it is a
  \<^verbatim>\<open>var\<close> that holds undefined, and \<^verbatim>\<open>_.set(undefined, ...)\<close> does nothing.
  The target is a parameter of the mapper.
\<close>

datatype js_target = ES5 | ES2015

text \<open>
  \<^verbatim>\<open>object[key] = value\<close> on an object. An existing key keeps its place. A new key
  that is an array index goes before the first key that is no array index or is a
  greater one; any other new key goes to the end.
\<close>

fun replaceKey :: "string \<Rightarrow> 'a \<Rightarrow> (string \<times> 'a) list \<Rightarrow> (string \<times> 'a) list" where
  "replaceKey k v [] = []"
| "replaceKey k v (kv # kvs) =
     (if fst kv = k then (k, v) # kvs else kv # replaceKey k v kvs)"

fun insertKey :: "string \<Rightarrow> 'a \<Rightarrow> (string \<times> 'a) list \<Rightarrow> (string \<times> 'a) list" where
  "insertKey k v [] = [(k, v)]"
| "insertKey k v (kv # kvs) =
     (if arrayIndex k \<and> (\<not> arrayIndex (fst kv) \<or> parseNat k < parseNat (fst kv))
      then (k, v) # kv # kvs
      else kv # insertKey k v kvs)"

definition setKey :: "string \<Rightarrow> 'a \<Rightarrow> (string \<times> 'a) list \<Rightarrow> (string \<times> 'a) list" where
  "setKey k v kvs = (if k \<in> fst ` set kvs then replaceKey k v kvs else insertKey k v kvs)"

text \<open>
  The keys \<^verbatim>\<open>_.set\<close> refuses to write: when it meets one of them on its path it
  returns, leaving the object as it is by then.
\<close>

definition reservedKey :: "string \<Rightarrow> bool" where
  "reservedKey k = (k = ''__proto__'' \<or> k = ''constructor'' \<or> k = ''prototype'')"

text \<open>
  A field name that \<^verbatim>\<open>_.set(result, fieldName, value)\<close> takes as one key: lodash
  reads a name with a dot or a bracket as a path. \<open>setField\<close> is that call for such a
  name.
\<close>

definition plainKey :: "string \<Rightarrow> bool" where
  "plainKey k = (CHR ''.'' \<notin> set k \<and> CHR ''['' \<notin> set k)"

definition setField :: "string \<Rightarrow> raw \<Rightarrow> (string \<times> raw) list \<Rightarrow> (string \<times> raw) list" where
  "setField k v result = (if reservedKey k then result else setKey k v result)"

text \<open>\<^verbatim>\<open>modelField?.type === 'list' && modelField.items\<close>\<close>

definition listItemsModel :: "fieldspec option \<Rightarrow> fieldspec items" where
  "listItemsModel modelField =
     (case modelField of
        None \<Rightarrow> NoItems
      | Some s \<Rightarrow> if ftype s = ''list'' then fitems s else NoItems)"

definition listItemModelField :: "fieldspec items \<Rightarrow> field \<Rightarrow> fieldspec option" where
  "listItemModelField its item =
     (case its of
        ManyItems specs \<Rightarrow> find (\<lambda>s. ftype s = tagOf item) specs
      | OneItem s \<Rightarrow> Some s
      | NoItems \<Rightarrow> None)"

text \<open>
  \<^verbatim>\<open>childModel?.fields\<close>, read through \<^verbatim>\<open>_.find\<close>. What \<^verbatim>\<open>modelMap[modelName]\<close>
  finds by inheritance has no \<^verbatim>\<open>fields\<close>, so only a registered model counts.
\<close>

definition modelFieldsOf :: "model option \<Rightarrow> fieldspec list" where
  "modelFieldsOf childModel = (case childModel of None \<Rightarrow> [] | Some m \<Rightarrow> mfields m)"

text \<open>
  \<^verbatim>\<open>mapUpdateOperationToValue\<close> with the loops of its \<^verbatim>\<open>object\<close>, \<^verbatim>\<open>model\<close>
  and \<^verbatim>\<open>list\<close> cases. In the \<^verbatim>\<open>object\<close> case \<^verbatim>\<open>(modelField as FieldObjectProps).fields\<close>
  raises a TypeError when no spec was passed. An image field has no \<^verbatim>\<open>value\<close>.
\<close>

function mapUpdateOperationToValue ::
    "js_target \<Rightarrow> field \<Rightarrow> modelMap \<Rightarrow> fieldspec option \<Rightarrow> error + raw"
  and mapObjectFields ::
    "js_target \<Rightarrow> (string \<times> field) list \<Rightarrow> modelMap \<Rightarrow> fieldspec option \<Rightarrow> error + unit"
  and mapModelFields ::
    "js_target \<Rightarrow> (string \<times> field) list \<Rightarrow> modelMap \<Rightarrow> model option
       \<Rightarrow> (string \<times> raw) list \<Rightarrow> error + (string \<times> raw) list"
  and mapListItems ::
    "js_target \<Rightarrow> field list \<Rightarrow> modelMap \<Rightarrow> fieldspec items \<Rightarrow> error + raw list"
where
  "mapUpdateOperationToValue tgt (FObject fs) modelMap modelField =
     (case mapObjectFields tgt fs modelMap modelField of
        Inl e \<Rightarrow> Inl e
      | Inr u \<Rightarrow> Inr (JObj []))"
| "mapUpdateOperationToValue tgt (FModel modelName fs) modelMap modelField =
     (case mapModelFields tgt fs modelMap (modelMap modelName) [] of
        Inl e \<Rightarrow> Inl e
      | Inr result \<Rightarrow> Inr (JObj result))"
| "mapUpdateOperationToValue tgt (FList items) modelMap modelField =
     (case mapListItems tgt items modelMap (listItemsModel modelField) of
        Inl e \<Rightarrow> Inl e
      | Inr xs \<Rightarrow> Inr (JArr xs))"
| "mapUpdateOperationToValue tgt (FReference refType refId) modelMap modelField = Inr refId"
| "mapUpdateOperationToValue tgt (FValue t v) modelMap modelField = Inr v"
| "mapUpdateOperationToValue tgt (FImage fs) modelMap modelField = Inr JUndefined"
| "mapObjectFields tgt [] modelMap modelField = Inr ()"
| "mapObjectFields tgt ((fieldName, child) # rest) modelMap modelField =
     (case modelField of
        None \<Rightarrow> Inl TypeError
      | Some mf \<Rightarrow>
          (case mapUpdateOperationToValue tgt child modelMap
                  (find (\<lambda>f. fname f = fieldName) (ffields mf)) of
             Inl e \<Rightarrow> Inl e
           | Inr v \<Rightarrow>
               (case tgt of
                  ES2015 \<Rightarrow> Inl ReferenceError
                | ES5 \<Rightarrow> mapObjectFields tgt rest modelMap modelField)))"
| "mapModelFields tgt [] modelMap childModel result = Inr result"
| "mapModelFields tgt ((fieldName, child) # rest) modelMap childModel result =
     (case mapUpdateOperationToValue tgt child modelMap
             (find (\<lambda>f. fname f = fieldName) (modelFieldsOf childModel)) of
        Inl e \<Rightarrow> Inl e
      | Inr v \<Rightarrow>
          if plainKey fieldName
          then mapModelFields tgt rest modelMap childModel (setField fieldName v result)
          else Inl Unmodelled)"
| "mapListItems tgt [] modelMap its = Inr []"
| "mapListItems tgt (item # rest) modelMap its =
     (case mapUpdateOperationToValue tgt item modelMap (listItemModelField its item) of
        Inl e \<Rightarrow> Inl e
      | Inr v \<Rightarrow>
          (case mapListItems tgt rest modelMap its of
             Inl e \<Rightarrow> Inl e
           | Inr vs \<Rightarrow> Inr (v # vs)))"
  by pat_completeness auto
termination
  by (relation "measure
     (case_sum
        (case_sum (\<lambda>(t, f, m, s). size f)
                  (\<lambda>(t, fs, m, s). size_list (size_prod (\<lambda>_. 0) size) fs))
        (case_sum (\<lambda>(t, fs, m, c, r). size_list (size_prod (\<lambda>_. 0) size) fs)
                  (\<lambda>(t, items, m, s). size_list size items)))") auto

section \<open>The record editor\<close>

text \<open>
  \<^verbatim>\<open>updateDocument\<close> edits the raw record with lodash's \<^verbatim>\<open>_.get\<close>,
  \<^verbatim>\<open>_.set\<close> and \<^verbatim>\<open>_.unset\<close>, modelled here after lodash's documentation on the
  own properties of a raw value: the keys of an object, the indices and the length of
  an array or a string. A path is the array form of a field path, each element as the
  key lodash makes of it (a number as its decimal numeral). Inherited properties and
  the limits on the length of an array are left out.
\<close>

type_synonym fieldPath = "string list"

fun isObject :: "raw \<Rightarrow> bool" where
  "isObject (JArr xs) = True"
| "isObject (JObj kvs) = True"
| "isObject v = False"

text \<open>\<^verbatim>\<open>object[key]\<close>\<close>

fun getKey :: "raw \<Rightarrow> string \<Rightarrow> raw" where
  "getKey (JObj kvs) k = getProp kvs k"
| "getKey (JArr xs) k =
     (if isIndex k \<and> parseNat k < length xs then xs ! parseNat k
      else if k = ''length'' then JNum (int (length xs))
      else JUndefined)"
| "getKey (JStr s) k =
     (if isIndex k \<and> parseNat k < length s then JStr [s ! parseNat k]
      else if k = ''length'' then JNum (int (length s))
      else JUndefined)"
| "getKey v k = JUndefined"

text \<open>
  \<^verbatim>\<open>_.get(object, path)\<close>: the walk stops at null or undefined; the empty path
  yields undefined.
\<close>

fun baseGet :: "raw \<Rightarrow> fieldPath \<Rightarrow> raw" where
  "baseGet object [] = object"
| "baseGet object (k # ks) =
     (if nullish object then JUndefined else baseGet (getKey object k) ks)"

definition lodashGet :: "raw \<Rightarrow> fieldPath \<Rightarrow> raw" where
  "lodashGet object path = (if path = [] then JUndefined else baseGet object path)"

text \<open>
  \<^verbatim>\<open>object[key] = value\<close> on an object or an array; an index past the end of an
  array leaves holes before it.
\<close>

fun assignValue :: "raw \<Rightarrow> string \<Rightarrow> raw \<Rightarrow> error + raw" where
  "assignValue (JObj kvs) k v = Inr (JObj (setKey k v kvs))"
| "assignValue (JArr xs) k v =
     (if isIndex k then
        Inr (JArr (if parseNat k < length xs then xs[parseNat k := v]
                   else xs @ replicate (parseNat k - length xs) JUndefined @ [v]))
      else Inl Unmodelled)"
| "assignValue object k v = Inr object"

text \<open>
  \<^verbatim>\<open>_.set(object, path, value)\<close>: a part of the path that is not an object is
  created, as an array when the next key is an index and as an object otherwise. At a
  reserved key the walk ends; what it created before that key stays.
\<close>

fun baseSet :: "raw \<Rightarrow> fieldPath \<Rightarrow> raw \<Rightarrow> error + raw" where
  "baseSet nested [] v = Inr nested"
| "baseSet nested [k] v = (if reservedKey k then Inr nested else assignValue nested k v)"
| "baseSet nested (k # k' # ks) v =
     (if reservedKey k then Inr nested
      else
        (let objValue = getKey nested k;
             newValue = (if isObject objValue then objValue
                         else if isIndex k' then JArr [] else JObj [])
         in case baseSet newValue (k' # ks) v of
              Inl e \<Rightarrow> Inl e
            | Inr child \<Rightarrow> assignValue nested k child))"

definition lodashSet :: "raw \<Rightarrow> fieldPath \<Rightarrow> raw \<Rightarrow> error + raw" where
  "lodashSet object path v = (if isObject object then baseSet object path v else Inr object)"

text \<open>
  \<^verbatim>\<open>delete object[key]\<close>, and \<^verbatim>\<open>_.unset(object, path)\<close>, which deletes the last
  key from the value at the path before it; with the empty path the key lodash deletes
  is \<^verbatim>\<open>'undefined'\<close>.
\<close>

fun deleteKey :: "raw \<Rightarrow> string \<Rightarrow> raw" where
  "deleteKey (JObj kvs) k = JObj (filter (\<lambda>kv. fst kv \<noteq> k) kvs)"
| "deleteKey (JArr xs) k =
     (if isIndex k \<and> parseNat k < length xs then JArr (xs[parseNat k := JUndefined])
      else JArr xs)"
| "deleteKey v k = v"

fun putKey :: "raw \<Rightarrow> string \<Rightarrow> raw \<Rightarrow> raw" where
  "putKey (JObj kvs) k v = JObj (setKey k v kvs)"
| "putKey (JArr xs) k v = JArr (xs[parseNat k := v])"
| "putKey object k v = object"

fun baseUnset :: "raw \<Rightarrow> fieldPath \<Rightarrow> raw" where
  "baseUnset object [] = deleteKey object ''undefined''"
| "baseUnset object [k] = deleteKey object k"
| "baseUnset object (k # k' # ks) =
     (let child = getKey object k
      in if isObject child then putKey object k (baseUnset child (k' # ks)) else object)"

definition lodashUnset :: "raw \<Rightarrow> fieldPath \<Rightarrow> raw" where
  "lodashUnset object path = (if nullish object then object else baseUnset object path)"


section \<open>Update operations\<close>

text \<open>
  \<open>OpSet fieldPath field modelField\<close>, \<open>OpUnset fieldPath\<close>,
  \<open>OpInsert fieldPath item modelField index\<close>, \<open>OpRemove fieldPath index\<close> and
  \<open>OpReorder fieldPath order\<close>.
\<close>

datatype updateOperation =
    OpSet fieldPath field fieldspec
  | OpUnset fieldPath
  | OpInsert fieldPath field fieldspec "int option"
  | OpRemove fieldPath int
  | OpReorder fieldPath "int list"

text \<open>The start position \<^verbatim>\<open>Array.prototype.splice\<close> makes of its first argument.\<close>

definition spliceStart :: "nat \<Rightarrow> int \<Rightarrow> nat" where
  "spliceStart len i = (if i < 0 then nat (max (int len + i) 0) else min (nat i) len)"

text \<open>\<^verbatim>\<open>arr[newIndex]\<close>: undefined outside the array.\<close>

definition elementAt :: "raw list \<Rightarrow> int \<Rightarrow> raw" where
  "elementAt arr i = (if 0 \<le> i \<and> nat i < length arr then arr ! nat i else JUndefined)"

text \<open>One round of the \<^verbatim>\<open>switch\<close> in \<^verbatim>\<open>updateDocument\<close>.\<close>

fun applyOperation :: "js_target \<Rightarrow> modelMap \<Rightarrow> raw \<Rightarrow> updateOperation \<Rightarrow> error + raw" where
  "applyOperation tgt modelMap data (OpSet fieldPath fld modelField) =
     (case mapUpdateOperationToValue tgt fld modelMap (Some modelField) of
        Inl e \<Rightarrow> Inl e
      | Inr v \<Rightarrow> lodashSet data fieldPath v)"
| "applyOperation tgt modelMap data (OpUnset fieldPath) = Inr (lodashUnset data fieldPath)"
| "applyOperation tgt modelMap data (OpInsert fieldPath item modelField index) =
     (case mapUpdateOperationToValue tgt item modelMap (Some modelField) of
        Inl e \<Rightarrow> Inl e
      | Inr v \<Rightarrow>
          (case iterate (lodashGet data fieldPath) of
             Inl e \<Rightarrow> Inl e
           | Inr arr \<Rightarrow>
               (let start = spliceStart (length arr) (case index of None \<Rightarrow> 0 | Some i \<Rightarrow> i)
                in lodashSet data fieldPath (JArr (take start arr @ v # drop start arr)))))"
| "applyOperation tgt modelMap data (OpRemove fieldPath index) =
     (case iterate (lodashGet data fieldPath) of
        Inl e \<Rightarrow> Inl e
      | Inr arr \<Rightarrow>
          (let start = spliceStart (length arr) index
           in lodashSet data fieldPath (JArr (take start arr @ drop (Suc start) arr))))"
| "applyOperation tgt modelMap data (OpReorder fieldPath order) =
     (case iterate (lodashGet data fieldPath) of
        Inl e \<Rightarrow> Inl e
      | Inr arr \<Rightarrow> lodashSet data fieldPath (JArr (map (elementAt arr) order)))"

fun applyOperations ::
  "js_target \<Rightarrow> modelMap \<Rightarrow> raw \<Rightarrow> updateOperation list \<Rightarrow> error + raw" where
  "applyOperations tgt modelMap data [] = Inr data"
| "applyOperations tgt modelMap data (updateOperation # rest) =
     (case applyOperation tgt modelMap data updateOperation of
        Inl e \<Rightarrow> Inl e
      | Inr data' \<Rightarrow> applyOperations tgt modelMap data' rest)"

text \<open>
  \<^verbatim>\<open>updateDocument\<close>, given the record \<^verbatim>\<open>getFileData\<close> read and the timestamps of
  the file: the result is the record handed to \<^verbatim>\<open>saveFileData\<close> and the document
  returned, \<^verbatim>\<open>convertDocument(...) || document\<close>.
\<close>

definition updateDocument ::
  "js_target \<Rightarrow> string \<times> string \<Rightarrow> raw \<Rightarrow> document \<Rightarrow> updateOperation list \<Rightarrow> modelMap
     \<Rightarrow> error + raw \<times> document" where
  "updateDocument tgt dates fileData document operations modelMap =
     (case applyOperations tgt modelMap fileData operations of
        Inl e \<Rightarrow> Inl e
      | Inr data \<Rightarrow>
          (case convertDocument (doc_id document) dates data modelMap of
             Inl e \<Rightarrow> Inl e
           | Inr None \<Rightarrow> Inr (data, document)
           | Inr (Some converted) \<Rightarrow> Inr (data, converted)))"

section \<open>Values that survive the round trip\<close>

text \<open>
  \<open>flatValue spec v\<close>: the spec is scalar-like or a reference, or it is a list spec and
  \<open>v\<close> an array whose elements are flat for the item spec (any array when the spec has
  no \<^verbatim>\<open>items\<close>, since the items are then converted as strings; the empty array when
  \<^verbatim>\<open>items\<close> is an array of specs).
\<close>

fun flatValue :: "fieldspec \<Rightarrow> raw \<Rightarrow> bool" where
  "flatValue (FieldSpec n t its fs ms) v =
     (if t \<in> set scalarTags \<or> t = ''reference'' then True
      else if t = ''list'' then
        (case v of
           JArr xs \<Rightarrow>
             (case its of
                NoItems \<Rightarrow> True
              | OneItem s \<Rightarrow> list_all (flatValue s) xs
              | ManyItems ss \<Rightarrow> xs = [])
         | _ \<Rightarrow> False)
      else False)"

text \<open>
  The keys of a record are distinct and in enumeration order: no array index comes
  after a greater one or after a key that is no array index.
\<close>

definition keyBefore :: "string \<Rightarrow> string \<Rightarrow> bool" where
  "keyBefore a b = (arrayIndex b \<longrightarrow> arrayIndex a \<and> parseNat a < parseNat b)"

definition enumerationOrder :: "(string \<times> 'a) list \<Rightarrow> bool" where
  "enumerationOrder kvs = (distinct (map fst kvs) \<and> sorted_wrt keyBefore (map fst kvs))"

text \<open>The model registered under the key of a value.\<close>

definition registered :: "modelMap \<Rightarrow> raw \<Rightarrow> model option" where
  "registered reg key = (case propertyKey key of None \<Rightarrow> None | Some k \<Rightarrow> reg k)"

lemma size_element: "x \<in> set xs \<Longrightarrow> size x < Suc (size_list size (xs :: raw list))"
  by (induction xs) auto

lemma size_entry:
  "kv \<in> set kvs \<Longrightarrow>
     size (snd kv) < Suc (size_list (size_prod (\<lambda>_. 0) size) (kvs :: (string \<times> raw) list))"
  by (induction kvs) auto

lemma stripIdType_subset: "kv \<in> set (stripIdType kvs) \<Longrightarrow> kv \<in> set kvs"
  by (simp add: stripIdType_def)

text \<open>
  \<open>lossless reg spec v\<close>: the raw value \<open>v\<close> matches the spec, and the converter keeps
  all of it but the \<^verbatim>\<open>id\<close> and \<^verbatim>\<open>type\<close> of its records. That is: the spec is
  scalar-like or a reference; or it is a list spec and \<open>v\<close> an array whose elements are
  lossless for the item spec (any array when the spec has no \<^verbatim>\<open>items\<close>, the empty
  array when \<^verbatim>\<open>items\<close> is an array of specs); or it is a model spec and \<open>v\<close> a record
  (in enumeration order, as every record is) that resolves to a registered model, each
  of whose fields other than \<^verbatim>\<open>id\<close> and \<^verbatim>\<open>type\<close> has a name that \<^verbatim>\<open>_.set\<close> writes
  as one key, a truthy value, and a spec in that model for which the value is lossless.
  No value is lossless for an object spec.
\<close>

function lossless :: "modelMap \<Rightarrow> fieldspec \<Rightarrow> raw \<Rightarrow> bool" where
  "lossless reg spec v =
     (if ftype spec \<in> set scalarTags \<or> ftype spec = ''reference'' then True
      else if ftype spec = ''list'' then
        (case v of
           JArr xs \<Rightarrow>
             (case fitems spec of
                NoItems \<Rightarrow> True
              | OneItem s \<Rightarrow> list_all (lossless reg s) xs
              | ManyItems ss \<Rightarrow> xs = [])
         | _ \<Rightarrow> False)
      else if ftype spec = ''model'' then
        (case v of
           JObj kvs \<Rightarrow>
             (case registered reg (modelType (getProp kvs ''type'') spec) of
                Some m \<Rightarrow>
                  list_all
                    (\<lambda>kv. case find (\<lambda>f. fname f = fst kv) (mfields m) of
                            None \<Rightarrow> False
                          | Some s \<Rightarrow>
                              lossless reg s (snd kv) \<and> truthy (snd kv) \<and>
                              plainKey (fst kv) \<and> \<not> reservedKey (fst kv))
                    (stripIdType kvs)
                  \<and> enumerationOrder kvs
              | None \<Rightarrow> False)
         | _ \<Rightarrow> False)
      else False)"
  by pat_completeness auto
termination
  apply (relation "measure (\<lambda>(reg, spec, v). size v)")
  subgoal by simp
  subgoal for reg spec v xs s x
    using size_element[of x xs] by simp
  subgoal for reg spec v kvs m kv s
    using size_entry[of kv kvs] stripIdType_subset[of kv kvs] by simp
  done

declare lossless.simps [simp del]

text \<open>
  \<open>stripModels reg spec v\<close>: the value \<open>v\<close> without the \<^verbatim>\<open>id\<close> and \<^verbatim>\<open>type\<close> of the
  records that stand where the spec has a model type.
\<close>

function stripModels :: "modelMap \<Rightarrow> fieldspec \<Rightarrow> raw \<Rightarrow> raw" where
  "stripModels reg spec v =
     (if ftype spec = ''list'' then
        (case v of
           JArr xs \<Rightarrow>
             (case fitems spec of
                OneItem s \<Rightarrow> JArr (map (stripModels reg s) xs)
              | _ \<Rightarrow> v)
         | _ \<Rightarrow> v)
      else if ftype spec = ''model'' then
        (case v of
           JObj kvs \<Rightarrow>
             (case registered reg (modelType (getProp kvs ''type'') spec) of
                Some m \<Rightarrow>
                  JObj (map (\<lambda>kv. (fst kv,
                               case find (\<lambda>f. fname f = fst kv) (mfields m) of
                                 None \<Rightarrow> snd kv
                               | Some s \<Rightarrow> stripModels reg s (snd kv)))
                          (stripIdType kvs))
              | None \<Rightarrow> v)
         | _ \<Rightarrow> v)
      else v)"
  by pat_completeness auto
termination
  apply (relation "measure (\<lambda>(reg, spec, v). size v)")
  subgoal by simp
  subgoal for reg spec v xs s x
    using size_element[of x xs] by simp
  subgoal for reg spec v kvs m kv s
    using size_entry[of kv kvs] stripIdType_subset[of kv kvs] by simp
  done

declare stripModels.simps [simp del]

section \<open>A sample schema\<close>

text \<open>
  The model \<^verbatim>\<open>post\<close> with the fields \<^verbatim>\<open>title: string\<close> and \<^verbatim>\<open>tags: list\<close>, a record
  of it and the document of that record; an object spec with one string field; a field
  of a type the converter does not know.
\<close>

definition titleSpec :: fieldspec where
  "titleSpec = FieldSpec ''title'' ''string'' NoItems [] []"

definition tagsSpec :: fieldspec where
  "tagsSpec = FieldSpec ''tags'' ''list'' NoItems [] []"

definition postModel :: model where
  "postModel = \<lparr>mname = ''post'', mfields = [titleSpec, tagsSpec]\<rparr>"

definition sampleModels :: modelMap where
  "sampleModels = [''post'' \<mapsto> postModel]"

definition sampleRecord :: raw where
  "sampleRecord = JObj [(''id'', JStr ''x''), (''type'', JStr ''post''),
     (''title'', JStr ''Hi''), (''tags'', JArr [JStr ''a'', JStr ''b''])]"

definition sampleDocument :: document where
  "sampleDocument = \<lparr>doc_type = ''document'', doc_id = ''content/x.json'',
     doc_modelName = ''post'', doc_manageUrl = [], doc_status = ''published'',
     doc_createdAt = ''2020'', doc_updatedAt = ''2021'',
     doc_fields = [(''title'', FValue ''string'' (JStr ''Hi'')),
       (''tags'', FList [FValue ''string'' (JStr ''a''), FValue ''string'' (JStr ''b'')])]\<rparr>"

definition authorSpec :: fieldspec where
  "authorSpec = FieldSpec ''author'' ''object'' NoItems
     [FieldSpec ''name'' ''string'' NoItems [] []] []"

definition bodySpec :: fieldspec where
  "bodySpec = FieldSpec ''body'' ''richText'' NoItems [] []"

definition sectionSpec :: fieldspec where
  "sectionSpec = FieldSpec ''section'' ''model'' NoItems [] [''post'']"

definition sectionsSpec :: fieldspec where
  "sectionsSpec = FieldSpec ''sections'' ''list'' (OneItem sectionSpec) [] []"


definition matrixSpec :: fieldspec where
  "matrixSpec = FieldSpec ''matrix'' ''list'' (OneItem tagsSpec) [] []"

text \<open>
  A model \<^verbatim>\<open>page\<close> with a title and a list of posts, and a registry with both
  models; a model spec for a model that is not registered, an image spec, a list spec
  over a type the converter does not know, and a list spec whose \<^verbatim>\<open>items\<close> is an
  array of specs; a record with a key \<^verbatim>\<open>length\<close>.
\<close>

definition pageModel :: model where
  "pageModel = \<lparr>mname = ''page'', mfields = [titleSpec, sectionsSpec]\<rparr>"

definition pageSpec :: fieldspec where
  "pageSpec = FieldSpec ''page'' ''model'' NoItems [] [''page'']"

definition siteModels :: modelMap where
  "siteModels = [''post'' \<mapsto> postModel, ''page'' \<mapsto> pageModel]"



definition notesSpec :: fieldspec where
  "notesSpec = FieldSpec ''notes'' ''list'' (OneItem bodySpec) [] []"

definition blocksSpec :: fieldspec where
  "blocksSpec = FieldSpec ''blocks'' ''list'' (ManyItems [titleSpec, sectionSpec]) [] []"



section \<open>Properties of the converter\<close>

declare convertFieldType.simps [simp del]

lemma supportedTags_count: "distinct supportedTags \<and> length supportedTags = 19"
  by (simp add: supportedTags_def scalarTags_def)

lemma supported_tag_accepted:
  "t \<in> set supportedTags \<Longrightarrow>
     convertFieldType (JObj []) (FieldSpec [] t NoItems [] []) Map.empty
       \<noteq> Inl (UnsupportedType t)"
  by (auto simp: convertFieldType.simps supportedTags_def modelType_def getProp_def
      lookupModel_def inheritedMembers_def)

lemma unsupported_raises:
  "ftype spec \<notin> set supportedTags \<Longrightarrow>
     convertFieldType v spec reg = Inl (UnsupportedType (ftype spec))"
  by (simp add: convertFieldType.simps[of v spec reg] supportedTags_def)

lemma convertFields_append:
  "convertFields (pre @ post) specs reg =
     (case convertFields pre specs reg of
        Inl e \<Rightarrow> Inl e
      | Inr r1 \<Rightarrow>
          (case convertFields post specs reg of
             Inl e \<Rightarrow> Inl e
           | Inr r2 \<Rightarrow> Inr (r1 @ r2)))"
  by (induction pre) (auto split: sum.splits option.splits)


lemma convertFields_skip:
  "find (\<lambda>f. fname f = name) specs = None \<or> \<not> truthy v \<Longrightarrow>
     convertFields ((name, v) # rest) specs reg = convertFields rest specs reg"
  by (auto split: option.splits)



text \<open>
  Where \<open>charFields\<close> returns, \<open>convertFields\<close> returns the same on the characters: the
  converter is followed on every string whose indices name no field.
\<close>

lemma charFields_convertFields:
  "charFields kvs specs = Inr fs \<Longrightarrow> convertFields kvs specs reg = Inr fs"
proof (induction kvs)
  case Nil
  then show ?case by (simp add: charFields_def)
next
  case (Cons kv kvs)
  obtain k v where kv: "kv = (k, v)" by (cases kv)
  from Cons.prems have none: "find (\<lambda>f. fname f = k) specs = None"
    and rest: "charFields kvs specs = Inr fs"
    unfolding kv by (auto simp: charFields_def split: if_splits)
  from Cons.IH[OF rest] none show ?case unfolding kv by simp
qed

lemma charFields_string:
  assumes "\<forall>i<length s. find (\<lambda>f. fname f = decimal i) specs = None"
  shows "charFields (zip (map decimal [0..<length s]) (map (\<lambda>c. JStr [c]) s)) specs = Inr []"
proof -
  have "find (\<lambda>f. fname f = fst kv) specs = None"
    if "kv \<in> set (zip (map decimal [0..<length s]) (map (\<lambda>c. JStr [c]) s))" for kv
  proof -
    from that obtain j where "j < length s" and "fst kv = decimal j"
      by (auto simp: in_set_zip)
    with assms show ?thesis by simp
  qed
  then show ?thesis by (auto simp: charFields_def list_ex_iff)
qed





lemma convertItems_each:
  assumes "fitems spec = NoItems \<and> itemSpec = stringSpec \<or> fitems spec = OneItem itemSpec"
    and "\<forall>x\<in>set xs. convertFieldType x itemSpec reg = Inr (f x)"
  shows "convertItems xs (fitems spec) reg
           = Inr (map (the \<circ> f) (filter (\<lambda>x. f x \<noteq> None) xs))"
  using assms(2)
proof (induction xs)
  case Nil
  then show ?case by simp
next
  case (Cons x xs)
  from Cons.prems have x: "convertFieldType x itemSpec reg = Inr (f x)" by simp
  from Cons have rest: "convertItems xs (fitems spec) reg
           = Inr (map (the \<circ> f) (filter (\<lambda>x. f x \<noteq> None) xs))" by simp
  from assms(1) show ?case
  proof
    assume "fitems spec = NoItems \<and> itemSpec = stringSpec"
    with x rest show ?thesis by (cases "f x") auto
  next
    assume "fitems spec = OneItem itemSpec"
    with x rest show ?thesis by (cases "f x") auto
  qed
qed


lemma list_conversion_spec_array:
  "ftype spec = ''list'' \<Longrightarrow> fitems spec = ManyItems specs \<Longrightarrow>
     convertFieldType (JArr (x # xs)) spec reg = Inl (UnsupportedType ''undefined'')"
  by (subst convertFieldType.simps) (simp add: scalarTags_def)

subsection \<open>Unsupported type tags\<close>

text \<open>
  C3, as amended. The converter supports nineteen type tags. For a field spec whose tag
  is none of them \<open>convertFieldType\<close> raises \<open>UnsupportedType\<close> whatever the value, and
  the error leaves \<open>convertFields\<close> too: when the fields before it converted, a field
  with a truthy value and such a spec makes the conversion of the whole record end in
  that error, whatever fields follow. A field without a spec or with a falsy value is
  passed over instead, even under such a spec.
\<close>

theorem unsupported_tag_aborts:
  assumes "ftype spec \<notin> set supportedTags"
  shows "distinct supportedTags \<and> length supportedTags = 19 \<and>
    convertFieldType v spec reg = Inl (UnsupportedType (ftype spec)) \<and>
    (find (\<lambda>f. fname f = name) specs = Some spec \<and> truthy v \<and>
       convertFields pre specs reg = Inr acc \<longrightarrow>
         convertFields (pre @ (name, v) # rest) specs reg
           = Inl (UnsupportedType (ftype spec))) \<and>
    (find (\<lambda>f. fname f = name) specs = None \<or> \<not> truthy v \<longrightarrow>
       convertFields (pre @ (name, v) # rest) specs reg
         = convertFields (pre @ rest) specs reg)"
proof -
  have raise: "convertFieldType v spec reg = Inl (UnsupportedType (ftype spec))"
    using assms by (rule unsupported_raises)
  have hard: "convertFields (pre @ (name, v) # rest) specs reg
      = Inl (UnsupportedType (ftype spec))"
    if "find (\<lambda>f. fname f = name) specs = Some spec \<and> truthy v \<and>
        convertFields pre specs reg = Inr acc"
    using that raise by (simp add: convertFields_append)
  have soft: "convertFields (pre @ (name, v) # rest) specs reg
      = convertFields (pre @ rest) specs reg"
    if "find (\<lambda>f. fname f = name) specs = None \<or> \<not> truthy v"
    by (simp only: convertFields_append[of pre] convertFields_skip[OF that])
  from supportedTags_count raise hard soft show ?thesis by blast
qed

theorem unsupported_tag_aborts_witness:
  "ftype bodySpec \<notin> set supportedTags \<and>
   find (\<lambda>f. fname f = ''body'') [titleSpec, bodySpec] = Some bodySpec \<and>
   truthy (JStr ''text'') \<and>
   convertFields [(''title'', JStr ''Hi'')] [titleSpec, bodySpec] sampleModels
     = Inr [(''title'', FValue ''string'' (JStr ''Hi''))] \<and>
   convertFieldType (JStr ''text'') bodySpec sampleModels = Inl (UnsupportedType ''richText'') \<and>
   convertFields ([(''title'', JStr ''Hi'')] @ (''body'', JStr ''text'') # [(''tags'', JArr [])])
     [titleSpec, bodySpec] sampleModels = Inl (UnsupportedType ''richText'') \<and>
   \<not> truthy (JStr []) \<and>
   convertFields ([(''title'', JStr ''Hi'')] @ (''body'', JStr []) # [(''tags'', JArr [])])
     [titleSpec, bodySpec] sampleModels
     = convertFields ([(''title'', JStr ''Hi'')] @ [(''tags'', JArr [])])
         [titleSpec, bodySpec] sampleModels"
proof -
  have tag: "ftype bodySpec \<notin> set supportedTags"
    by (simp add: bodySpec_def supportedTags_def scalarTags_def)
  have found: "find (\<lambda>f. fname f = ''body'') [titleSpec, bodySpec] = Some bodySpec"
    by (simp add: bodySpec_def titleSpec_def)
  have before: "convertFields [(''title'', JStr ''Hi'')] [titleSpec, bodySpec] sampleModels
     = Inr [(''title'', FValue ''string'' (JStr ''Hi''))]"
    by (simp add: titleSpec_def bodySpec_def convertFieldType.simps scalarTags_def)
  have name: "ftype bodySpec = ''richText''"
    by (simp add: bodySpec_def)
  have falsy: "\<not> truthy (JStr [])" by simp
  note hard = unsupported_tag_aborts[OF tag, where v = "JStr ''text''" and reg = sampleModels
      and name = "''body''" and specs = "[titleSpec, bodySpec]"
      and pre = "[(''title'', JStr ''Hi'')]"
      and acc = "[(''title'', FValue ''string'' (JStr ''Hi''))]"
      and rest = "[(''tags'', JArr [])]"]
  note soft = unsupported_tag_aborts[OF tag, where v = "JStr []" and reg = sampleModels
      and name = "''body''" and specs = "[titleSpec, bodySpec]"
      and pre = "[(''title'', JStr ''Hi'')]" and rest = "[(''tags'', JArr [])]"]
  from hard found before name
  have c1: "convertFieldType (JStr ''text'') bodySpec sampleModels
      = Inl (UnsupportedType ''richText'')"
    and c2: "convertFields ([(''title'', JStr ''Hi'')] @ (''body'', JStr ''text'')
          # [(''tags'', JArr [])]) [titleSpec, bodySpec] sampleModels
      = Inl (UnsupportedType ''richText'')"
    by simp_all
  from soft falsy
  have c3: "convertFields ([(''title'', JStr ''Hi'')] @ (''body'', JStr []) # [(''tags'', JArr [])])
     [titleSpec, bodySpec] sampleModels
     = convertFields ([(''title'', JStr ''Hi'')] @ [(''tags'', JArr [])])
         [titleSpec, bodySpec] sampleModels"
    by blast
  from tag found before c1 c2 falsy c3 show ?thesis
    by (intro conjI) simp_all
qed

text \<open>
  C3 as stated speaks of sixteen supported tags. No set of sixteen tags is the set
  outside of which \<open>convertFieldType\<close> raises \<open>UnsupportedType\<close>: nineteen tags are
  converted.
\<close>

theorem sixteen_tags_counterexample:
  "\<not> (\<exists>S. finite S \<and> card S = 16 \<and>
        (\<forall>v spec reg. ftype spec \<notin> S \<longrightarrow>
            convertFieldType v spec reg = Inl (UnsupportedType (ftype spec))))"
proof
  assume "\<exists>S. finite S \<and> card S = 16 \<and>
        (\<forall>v spec reg. ftype spec \<notin> S \<longrightarrow>
            convertFieldType v spec reg = Inl (UnsupportedType (ftype spec)))"
  then obtain S where fin: "finite S" and c: "card S = 16"
    and all: "\<And>v spec reg. ftype spec \<notin> S \<Longrightarrow>
            convertFieldType v spec reg = Inl (UnsupportedType (ftype spec))"
    by blast
  have "set supportedTags \<subseteq> S"
  proof
    fix t assume t: "t \<in> set supportedTags"
    show "t \<in> S"
    proof (rule ccontr)
      assume "t \<notin> S"
      then have "convertFieldType (JObj []) (FieldSpec [] t NoItems [] []) Map.empty
          = Inl (UnsupportedType t)"
        using all[of "FieldSpec [] t NoItems [] []" "JObj []" Map.empty] by simp
      with supported_tag_accepted[OF t] show False by simp
    qed
  qed
  then have "card (set supportedTags) \<le> card S"
    using fin by (rule card_mono[rotated])
  moreover have "card (set supportedTags) = 19"
    using supportedTags_count by (simp add: distinct_card)
  ultimately show False using c by simp
qed

subsection \<open>Skipped fields\<close>



subsection \<open>Lists\<close>

text \<open>
  C5, as amended. For a list-typed spec whose \<^verbatim>\<open>items\<close> is a single spec or absent,
  the item spec is that spec, or the string spec when there is none. When the conversion
  of every element of the raw array against it returns, \<open>f x\<close> being what it returns
  for \<open>x\<close>, the list converts to the list field whose items are the non-null results in
  the order of their elements: exactly the elements with a null result are dropped.
\<close>

theorem list_conversion:
  assumes "ftype spec = ''list''"
    and "fitems spec = NoItems \<and> itemSpec = stringSpec \<or> fitems spec = OneItem itemSpec"
    and "\<forall>x\<in>set xs. convertFieldType x itemSpec reg = Inr (f x)"
  shows "convertFieldType (JArr xs) spec reg
           = Inr (Some (FList (map (the \<circ> f) (filter (\<lambda>x. f x \<noteq> None) xs))))"
  using assms(1) convertItems_each[OF assms(2,3)]
  by (simp add: convertFieldType.simps[of "JArr xs" spec reg] scalarTags_def)


theorem list_conversion_witness:
  "ftype sectionsSpec = ''list'' \<and> fitems sectionsSpec = OneItem sectionSpec \<and>
   convertFieldType (JObj [(''type'', JStr ''post''), (''title'', JStr ''A'')]) sectionSpec sampleModels
     = Inr (Some (FModel ''post'' [(''title'', FValue ''string'' (JStr ''A''))])) \<and>
   convertFieldType (JObj [(''type'', JStr ''ghost''), (''title'', JStr ''G'')]) sectionSpec sampleModels
     = Inr None \<and>
   convertFieldType (JObj [(''id'', JNum 7), (''title'', JStr ''B'')]) sectionSpec sampleModels
     = Inr (Some (FModel ''post'' [(''title'', FValue ''string'' (JStr ''B''))])) \<and>
   convertFieldType (JArr [JObj [(''type'', JStr ''post''), (''title'', JStr ''A'')],
        JObj [(''type'', JStr ''ghost''), (''title'', JStr ''G'')],
        JObj [(''id'', JNum 7), (''title'', JStr ''B'')]]) sectionsSpec sampleModels
     = Inr (Some (FList [FModel ''post'' [(''title'', FValue ''string'' (JStr ''A''))],
                         FModel ''post'' [(''title'', FValue ''string'' (JStr ''B''))]]))"
proof -
  let ?a = "JObj [(''type'', JStr ''post''), (''title'', JStr ''A'')]"
  let ?g = "JObj [(''type'', JStr ''ghost''), (''title'', JStr ''G'')]"
  let ?b = "JObj [(''id'', JNum 7), (''title'', JStr ''B'')]"
  let ?f = "\<lambda>x. if x = ?g then None
            else Some (FModel ''post'' [(''title'', FValue ''string'' (getProp (case x of JObj kvs \<Rightarrow> kvs | _ \<Rightarrow> []) ''title''))])"
  have t: "ftype sectionsSpec = ''list''" by (simp add: sectionsSpec_def)
  have i: "fitems sectionsSpec = NoItems \<and> sectionSpec = stringSpec \<or>
           fitems sectionsSpec = OneItem sectionSpec"
    by (simp add: sectionsSpec_def)
  have a: "convertFieldType ?a sectionSpec sampleModels
     = Inr (Some (FModel ''post'' [(''title'', FValue ''string'' (JStr ''A''))]))"
    by code_simp
  have g: "convertFieldType ?g sectionSpec sampleModels = Inr None"
    by code_simp
  have b: "convertFieldType ?b sectionSpec sampleModels
     = Inr (Some (FModel ''post'' [(''title'', FValue ''string'' (JStr ''B''))]))"
    by code_simp
  have each: "\<forall>x\<in>set [?a, ?g, ?b]. convertFieldType x sectionSpec sampleModels = Inr (?f x)"
    using a g b by (simp add: getProp_def)
  from list_conversion[OF t i each] a g b t
  show ?thesis by (simp add: sectionsSpec_def getProp_def)
qed

text \<open>
  C5 as stated covers every list-typed spec and every raw array. Where \<^verbatim>\<open>items\<close> is
  an array of specs, the converter dispatches on the \<^verbatim>\<open>type\<close> of that array, which is
  undefined: under the spec \<^verbatim>\<open>blocks\<close>, whose items are a string spec and a model
  spec, the array \<^verbatim>\<open>['a']\<close> is not converted to a list field, the conversion raises
  \<^verbatim>\<open>Unsupported type: undefined\<close>. (The reverse mapper picks the item spec by the
  type of the item and maps the list field back.) And an element whose conversion raises
  is not dropped, it ends the conversion of the list: so the element \<^verbatim>\<open>'x'\<close> under
  the spec \<^verbatim>\<open>notes\<close>, whose items have the type \<^verbatim>\<open>richText\<close>.
\<close>

theorem list_conversion_counterexample:
  "ftype blocksSpec = ''list'' \<and>
   fitems blocksSpec = ManyItems [titleSpec, sectionSpec] \<and>
   convertFieldType (JArr [JStr ''a'']) blocksSpec sampleModels
     = Inl (UnsupportedType ''undefined'') \<and>
   mapUpdateOperationToValue ES2015 (FList [FValue ''string'' (JStr ''a'')]) sampleModels
       (Some blocksSpec) = Inr (JArr [JStr ''a'']) \<and>
   ftype notesSpec = ''list'' \<and> fitems notesSpec = OneItem bodySpec \<and>
   convertFieldType (JStr ''x'') bodySpec sampleModels = Inl (UnsupportedType ''richText'') \<and>
   convertFieldType (JArr [JStr ''a'', JStr ''x'']) notesSpec sampleModels
     = Inl (UnsupportedType ''richText'')"
  by (simp add: blocksSpec_def list_conversion_spec_array listItemsModel_def
      listItemModelField_def titleSpec_def sectionSpec_def notesSpec_def bodySpec_def
      convertFieldType.simps scalarTags_def)

subsection \<open>Nested models\<close>

text \<open>
  The model case on a raw record. Without a \<^verbatim>\<open>type\<close> key the model name is the
  first allowed model name of the spec, otherwise it is the value under \<^verbatim>\<open>type\<close>,
  unless that is null. When the lookup finds nothing the result is null, and
  \<open>convertFields\<close> goes on without the field. When it finds a model, the record without
  \<^verbatim>\<open>id\<close> and \<^verbatim>\<open>type\<close> is converted against the field list of that model, and the
  result is the model field with the name of that model and those fields.
\<close>

lemma model_conversion:
  assumes "ftype spec = ''model''"
  shows "(map_of kvs ''type'' = None \<and> fmodels spec = n # ns \<longrightarrow>
            modelType (getProp kvs ''type'') spec = JStr n) \<and>
         (map_of kvs ''type'' = Some t \<and> \<not> nullish t \<longrightarrow>
            modelType (getProp kvs ''type'') spec = t) \<and>
         (lookupModel reg (modelType (getProp kvs ''type'') spec) = Inr None \<longrightarrow>
            convertFieldType (JObj kvs) spec reg = Inr None \<and>
            (find (\<lambda>f. fname f = name) specs = Some spec \<longrightarrow>
               convertFields ((name, JObj kvs) # rest) specs reg
                 = convertFields rest specs reg)) \<and>
         (lookupModel reg (modelType (getProp kvs ''type'') spec) = Inr (Some m) \<and>
          convertFields (stripIdType kvs) (mfields m) reg = Inr fs \<longrightarrow>
            convertFieldType (JObj kvs) spec reg = Inr (Some (FModel (mname m) fs))) \<and>
         set (stripIdType kvs) = {kv \<in> set kvs. fst kv \<noteq> ''id'' \<and> fst kv \<noteq> ''type''}"
proof -
  have conv: "convertFieldType (JObj kvs) spec reg =
      (case lookupModel reg (modelType (getProp kvs ''type'') spec) of
         Inl e \<Rightarrow> Inl e
       | Inr None \<Rightarrow> Inr None
       | Inr (Some m) \<Rightarrow>
           (case convertFields (stripIdType kvs) (mfields m) reg of
              Inl e \<Rightarrow> Inl e
            | Inr fs \<Rightarrow> Inr (Some (FModel (mname m) fs))))"
    using assms
    by (simp add: convertFieldType.simps[of "JObj kvs" spec reg] scalarTags_def
        split: sum.splits option.splits)
  show ?thesis
    by (auto simp: conv modelType_def getProp_def stripIdType_def)
qed

text \<open>The key of a model name that is no string.\<close>

lemma propertyKey_examples:
  "propertyKey (JNum 5) = Some ''5'' \<and>
   propertyKey (JNum (- 12)) = Some ''-12'' \<and>
   propertyKey (JNum 9007199254740992) = Some ''9007199254740992'' \<and>
   propertyKey (JNum 9007199254740993) = None \<and>
   propertyKey (JNum 1000000000000000000000) = None \<and>
   propertyKey (JBool True) = Some ''true'' \<and>
   propertyKey (JBool False) = Some ''false'' \<and>
   propertyKey (JArr [JStr ''a'', JNull, JArr [JUndefined, JNum 1], JObj []])
     = Some ''a,,,1,[object Object]'' \<and>
   propertyKey (JObj [(''a'', JNum 1)]) = Some ''[object Object]''"
  by (simp add: showInt_def decimal_small decimal_big digit_def)

text \<open>
  What the lookup finds: a registered model, also under the key of a number; nothing;
  an inherited member.
\<close>

lemma lookupModel_examples:
  "lookupModel sampleModels (JStr ''post'') = Inr (Some postModel) \<and>
   lookupModel sampleModels (JStr ''ghost'') = Inr None \<and>
   lookupModel sampleModels JUndefined = Inr None \<and>
   lookupModel sampleModels (JNum 5) = Inr None \<and>
   lookupModel [''5'' \<mapsto> postModel] (JNum 5) = Inr (Some postModel) \<and>
   lookupModel [''undefined'' \<mapsto> postModel] JUndefined = Inr (Some postModel) \<and>
   lookupModel sampleModels (JStr ''constructor'')
     = Inr (Some \<lparr>mname = ''Object'', mfields = []\<rparr>) \<and>
   lookupModel sampleModels (JStr ''valueOf'')
     = Inr (Some \<lparr>mname = ''valueOf'', mfields = []\<rparr>)"
  by (simp add: lookupModel_def sampleModels_def inheritedMembers_def showInt_def
      decimal_small digit_def)

text \<open>
  A string under a model spec has no \<^verbatim>\<open>type\<close>, so it resolves to the first allowed
  model, and none of its characters is a field of the model \<^verbatim>\<open>post\<close>.
\<close>

lemma string_under_model:
  "convertFieldType (JStr ''ab'') sectionSpec sampleModels = Inr (Some (FModel ''post'' []))"
  by (simp add: convertFieldType.simps sectionSpec_def scalarTags_def modelType_def
      getProp_def lookupModel_def sampleModels_def stripIdType_def charFields_def
      postModel_def titleSpec_def tagsSpec_def decimal_small digit_def upt_rec)

text \<open>
  C6 asks that a model name which is not in the registry yields null, so that the field
  is dropped. The source tests \<^verbatim>\<open>modelMap[modelType]\<close>, and on the registry object
  that lookup also finds what the object inherits. With a registry that holds only
  \<^verbatim>\<open>post\<close>, the record \<^verbatim>\<open>{ type: 'toString', title: 'T' }\<close> under the model spec
  \<^verbatim>\<open>section\<close> converts to the model field
  \<^verbatim>\<open>{ type: 'model', modelName: 'toString', fields: {} }\<close>, and \<open>convertFields\<close>
  keeps the field; for the unregistered name \<^verbatim>\<open>ghost\<close> the result is null.
\<close>

theorem unregistered_model_resolves:
  "sampleModels ''toString'' = None \<and>
   modelType (getProp [(''type'', JStr ''toString''), (''title'', JStr ''T'')] ''type'')
       sectionSpec = JStr ''toString'' \<and>
   convertFieldType (JObj [(''type'', JStr ''toString''), (''title'', JStr ''T'')])
       sectionSpec sampleModels = Inr (Some (FModel ''toString'' [])) \<and>
   convertFields [(''section'', JObj [(''type'', JStr ''toString''), (''title'', JStr ''T'')])]
       [sectionSpec] sampleModels = Inr [(''section'', FModel ''toString'' [])] \<and>
   convertFieldType (JObj [(''type'', JStr ''ghost''), (''title'', JStr ''T'')])
       sectionSpec sampleModels = Inr None"
  by (simp add: sampleModels_def sectionSpec_def modelType_def getProp_def stripIdType_def
      convertFieldType.simps scalarTags_def lookupModel_def inheritedMembers_def)

subsection \<open>Null results\<close>




section \<open>Properties of the reverse mapper\<close>

subsection \<open>The round trip\<close>

lemma items_default_round_trip:
  "\<exists>fs. convertItems xs NoItems reg = Inr fs \<and>
        (\<forall>its. mapListItems tgt fs reg its = Inr xs)"
  by (induction xs)
     (auto simp: convertFieldType.simps stringSpec_def scalarTags_def)

lemma items_round_trip:
  assumes "\<forall>x\<in>set xs. \<exists>f. convertFieldType x s reg = Inr (Some f) \<and>
             (\<forall>mf. mapUpdateOperationToValue tgt f reg mf = Inr (g x))"
  shows "\<exists>fs. convertItems xs (OneItem s) reg = Inr fs \<and>
           (\<forall>its. mapListItems tgt fs reg its = Inr (map g xs))"
  using assms
  by (induction xs) auto

lemma insertKey_last:
  "sorted_wrt keyBefore (map fst kvs @ [k]) \<Longrightarrow> insertKey k v kvs = kvs @ [(k, v)]"
  by (induction kvs) (auto simp: sorted_wrt_append keyBefore_def)

lemma setKey_last:
  "enumerationOrder (kvs @ [(k, v)]) \<Longrightarrow> setKey k v kvs = kvs @ [(k, v)]"
  using insertKey_last[of kvs k v]
  by (auto simp: enumerationOrder_def setKey_def)

lemma enumerationOrder_keys:
  "map fst a = map fst b \<Longrightarrow> enumerationOrder a = enumerationOrder b"
  by (simp add: enumerationOrder_def)

lemma enumerationOrder_strip: "enumerationOrder kvs \<Longrightarrow> enumerationOrder (stripIdType kvs)"
  unfolding enumerationOrder_def stripIdType_def
  by (simp add: distinct_map_filter sorted_wrt_map sorted_wrt_filter)

lemma model_fields_round_trip:
  assumes "\<forall>kv\<in>set kvs. \<exists>s f. find (\<lambda>f. fname f = fst kv) specs = Some s \<and>
             truthy (snd kv) \<and> plainKey (fst kv) \<and> \<not> reservedKey (fst kv) \<and>
             convertFieldType (snd kv) s reg = Inr (Some f) \<and>
             (\<forall>mf. mapUpdateOperationToValue tgt f reg mf = Inr (g kv))"
  shows "\<exists>fs. convertFields kvs specs reg = Inr fs \<and>
           (\<forall>cm acc. enumerationOrder (acc @ kvs) \<longrightarrow>
              mapModelFields tgt fs reg cm acc
                = Inr (acc @ map (\<lambda>kv. (fst kv, g kv)) kvs))"
  using assms
proof (induction kvs)
  case Nil
  then show ?case by simp
next
  case (Cons kv kvs)
  obtain k v where kv: "kv = (k, v)" by (cases kv)
  from Cons.prems kv obtain s f where found: "find (\<lambda>f. fname f = k) specs = Some s"
    and tv: "truthy v" and pk: "plainKey k" and nr: "\<not> reservedKey k"
    and conv: "convertFieldType v s reg = Inr (Some f)"
    and inv: "\<And>mf. mapUpdateOperationToValue tgt f reg mf = Inr (g kv)"
    by auto
  from Cons obtain fs where fs: "convertFields kvs specs reg = Inr fs"
    and rest: "\<And>cm acc. enumerationOrder (acc @ kvs) \<Longrightarrow>
          mapModelFields tgt fs reg cm acc = Inr (acc @ map (\<lambda>kv. (fst kv, g kv)) kvs)"
    by auto
  have c: "convertFields (kv # kvs) specs reg = Inr ((k, f) # fs)"
    unfolding kv using found tv conv fs by simp
  have "mapModelFields tgt ((k, f) # fs) reg cm acc
      = Inr (acc @ map (\<lambda>kv. (fst kv, g kv)) (kv # kvs))"
    if ord: "enumerationOrder (acc @ kv # kvs)" for cm acc
  proof -
    have "enumerationOrder ((acc @ [(k, g kv)]) @ kvs)"
      using ord kv enumerationOrder_keys[of "(acc @ [(k, g kv)]) @ kvs" "acc @ kv # kvs"]
      by simp
    from rest[OF this, of cm] have r: "mapModelFields tgt fs reg cm (acc @ [(k, g kv)])
        = Inr (acc @ map (\<lambda>kv. (fst kv, g kv)) (kv # kvs))"
      using kv by simp
    have "enumerationOrder (acc @ [(k, g kv)])"
      using ord kv by (auto simp: enumerationOrder_def sorted_wrt_append)
    from setKey_last[OF this] have "setField k (g kv) acc = acc @ [(k, g kv)]"
      using nr by (simp add: setField_def)
    with r inv pk show ?thesis by simp
  qed
  with c show ?case by blast
qed

lemma lossless_round_trip:
  "lossless reg spec v \<Longrightarrow>
     \<exists>f. convertFieldType v spec reg = Inr (Some f) \<and>
         (\<forall>mf. mapUpdateOperationToValue tgt f reg mf = Inr (stripModels reg spec v))"
proof (induction reg spec v rule: lossless.induct)
  case (1 reg spec v)
  show ?case
  proof (cases "ftype spec \<in> set scalarTags \<or> ftype spec = ''reference''")
    case True
    then have "stripModels reg spec v = v"
      by (subst stripModels.simps) (auto simp: scalarTags_def)
    with True show ?thesis
      by (subst convertFieldType.simps) (auto simp: scalarTags_def)
  next
    case False
    show ?thesis
    proof (cases "ftype spec = ''list''")
      case True
      with "1.prems" False obtain xs where v: "v = JArr xs"
        by (subst (asm) lossless.simps) (auto split: raw.splits)
      have conv: "convertFieldType v spec reg =
          (case convertItems xs (fitems spec) reg of
             Inl e \<Rightarrow> Inl e | Inr items \<Rightarrow> Inr (Some (FList items)))"
        unfolding v using True by (subst convertFieldType.simps) (simp add: scalarTags_def)
      have "\<exists>items. convertItems xs (fitems spec) reg = Inr items \<and>
          (\<forall>its. mapListItems tgt items reg its = Inr
             (case fitems spec of OneItem s \<Rightarrow> map (stripModels reg s) xs | _ \<Rightarrow> xs))"
      proof (cases "fitems spec")
        case NoItems
        then show ?thesis using items_default_round_trip by simp
      next
        case (OneItem s)
        from "1.prems" False True v OneItem have all: "list_all (lossless reg s) xs"
          by (subst (asm) lossless.simps) simp
        have "\<forall>x\<in>set xs. \<exists>f. convertFieldType x s reg = Inr (Some f) \<and>
               (\<forall>mf. mapUpdateOperationToValue tgt f reg mf = Inr (stripModels reg s x))"
        proof
          fix x assume x: "x \<in> set xs"
          with all have "lossless reg s x" by (simp add: list_all_iff)
          from "1.IH"(1)[OF False True v OneItem x this]
          show "\<exists>f. convertFieldType x s reg = Inr (Some f) \<and>
               (\<forall>mf. mapUpdateOperationToValue tgt f reg mf = Inr (stripModels reg s x))" .
        qed
        from items_round_trip[OF this] OneItem show ?thesis by simp
      next
        case (ManyItems ss)
        from "1.prems" False True v ManyItems have "xs = []"
          by (subst (asm) lossless.simps) simp
        with ManyItems show ?thesis by simp
      qed
      then obtain items where items: "convertItems xs (fitems spec) reg = Inr items"
        and inv: "\<And>its. mapListItems tgt items reg its = Inr
             (case fitems spec of OneItem s \<Rightarrow> map (stripModels reg s) xs | _ \<Rightarrow> xs)"
        by blast
      have strip: "stripModels reg spec v =
          JArr (case fitems spec of OneItem s \<Rightarrow> map (stripModels reg s) xs | _ \<Rightarrow> xs)"
        unfolding v using True
        by (subst stripModels.simps) (simp split: items.splits)
      show ?thesis using conv items inv strip by simp
    next
      case notlist: False
      from "1.prems" False notlist have t: "ftype spec = ''model''"
        by (subst (asm) lossless.simps) (auto split: if_splits)
      from "1.prems" False notlist t obtain kvs where v: "v = JObj kvs"
        by (subst (asm) lossless.simps) (auto split: raw.splits)
      from "1.prems" False notlist t v obtain m where
        m: "registered reg (modelType (getProp kvs ''type'') spec) = Some m"
        and all: "list_all
                    (\<lambda>kv. case find (\<lambda>f. fname f = fst kv) (mfields m) of
                            None \<Rightarrow> False
                          | Some s \<Rightarrow>
                              lossless reg s (snd kv) \<and> truthy (snd kv) \<and>
                              plainKey (fst kv) \<and> \<not> reservedKey (fst kv))
                    (stripIdType kvs)"
        and ord: "enumerationOrder kvs"
        by (subst (asm) lossless.simps) (auto split: option.splits)
      from m have look: "lookupModel reg (modelType (getProp kvs ''type'') spec) = Inr (Some m)"
        by (auto simp: registered_def lookupModel_def split: option.splits)
      let ?g = "\<lambda>kv. case find (\<lambda>f. fname f = fst kv) (mfields m) of
                       None \<Rightarrow> snd kv
                     | Some s \<Rightarrow> stripModels reg s (snd kv)"
      have each: "\<forall>kv\<in>set (stripIdType kvs).
           \<exists>s f. find (\<lambda>f. fname f = fst kv) (mfields m) = Some s \<and>
             truthy (snd kv) \<and> plainKey (fst kv) \<and> \<not> reservedKey (fst kv) \<and>
             convertFieldType (snd kv) s reg = Inr (Some f) \<and>
             (\<forall>mf. mapUpdateOperationToValue tgt f reg mf = Inr (?g kv))"
      proof
        fix kv assume kv: "kv \<in> set (stripIdType kvs)"
        with all obtain s where s: "find (\<lambda>f. fname f = fst kv) (mfields m) = Some s"
          and l: "lossless reg s (snd kv)" and rest: "truthy (snd kv)" "plainKey (fst kv)"
            "\<not> reservedKey (fst kv)"
          by (auto simp: list_all_iff split: option.splits)
        from "1.IH"(2)[OF False notlist t v m kv s l]
        obtain f where "convertFieldType (snd kv) s reg = Inr (Some f)"
          and "\<And>mf. mapUpdateOperationToValue tgt f reg mf = Inr (stripModels reg s (snd kv))"
          by blast
        with s rest show "\<exists>s f. find (\<lambda>f. fname f = fst kv) (mfields m) = Some s \<and>
             truthy (snd kv) \<and> plainKey (fst kv) \<and> \<not> reservedKey (fst kv) \<and>
             convertFieldType (snd kv) s reg = Inr (Some f) \<and>
             (\<forall>mf. mapUpdateOperationToValue tgt f reg mf = Inr (?g kv))"
          by auto
      qed
      from model_fields_round_trip[OF each]
      obtain fs where fs: "convertFields (stripIdType kvs) (mfields m) reg = Inr fs"
        and inv: "\<And>cm acc. enumerationOrder (acc @ stripIdType kvs) \<Longrightarrow>
              mapModelFields tgt fs reg cm acc
                = Inr (acc @ map (\<lambda>kv. (fst kv, ?g kv)) (stripIdType kvs))"
        by blast
      have conv: "convertFieldType v spec reg = Inr (Some (FModel (mname m) fs))"
        unfolding v using t look fs
        by (subst convertFieldType.simps) (simp add: scalarTags_def)
      have strip: "stripModels reg spec v
          = JObj (map (\<lambda>kv. (fst kv, ?g kv)) (stripIdType kvs))"
        unfolding v using t m by (subst stripModels.simps) simp
      from inv[of "[]"] enumerationOrder_strip[OF ord]
      have "mapModelFields tgt fs reg cm [] = Inr (map (\<lambda>kv. (fst kv, ?g kv)) (stripIdType kvs))"
        for cm by simp
      with conv strip show ?thesis by simp
    qed
  qed
qed

lemma flat_lossless: "flatValue spec v \<Longrightarrow> lossless reg spec v \<and> stripModels reg spec v = v"
proof (induction spec v rule: flatValue.induct)
  case (1 n t its fs ms v)
  let ?spec = "FieldSpec n t its fs ms"
  show ?case
  proof (cases "t \<in> set scalarTags \<or> t = ''reference''")
    case True
    then show ?thesis
      by (subst lossless.simps, subst stripModels.simps) (auto simp: scalarTags_def)
  next
    case False
    with "1.prems" have t: "t = ''list''" by (auto split: if_splits)
    from "1.prems" False t obtain xs where v: "v = JArr xs"
      by (auto split: raw.splits)
    show ?thesis
    proof (cases its)
      case NoItems
      with t v show ?thesis
        by (subst lossless.simps, subst stripModels.simps) (auto simp: scalarTags_def)
    next
      case (OneItem s)
      with "1.prems" False t v have all: "list_all (flatValue s) xs" by simp
      have each: "\<forall>x\<in>set xs. lossless reg s x \<and> stripModels reg s x = x"
        using "1.IH"[OF False t v OneItem] all by (auto simp: list_all_iff)
      then have "map (stripModels reg s) xs = xs" by (simp add: map_idI)
      with each t v OneItem show ?thesis
        by (subst lossless.simps, subst stripModels.simps)
           (auto simp: scalarTags_def list_all_iff)
    next
      case (ManyItems ss)
      with "1.prems" False t v have "xs = []" by simp
      with t v ManyItems show ?thesis
        by (subst lossless.simps, subst stripModels.simps) (auto simp: scalarTags_def)
    qed
  qed
qed

text \<open>
  A field with a reserved name does not come back: \<^verbatim>\<open>_.set(result, fieldName, value)\<close>
  writes nothing for it. So the record \<^verbatim>\<open>{ constructor: 'Hi', title: 'T' }\<close> of a
  model that declares both fields comes back as \<^verbatim>\<open>{ title: 'T' }\<close>.
\<close>

lemma mapModelFields_reserved:
  assumes "reservedKey k"
    and "mapUpdateOperationToValue tgt f reg (find (\<lambda>s. fname s = k) (modelFieldsOf cm)) = Inr v"
  shows "mapModelFields tgt ((k, f) # fs) reg cm acc = mapModelFields tgt fs reg cm acc"
proof -
  from assms(1) have "plainKey k" by (auto simp: reservedKey_def plainKey_def)
  with assms show ?thesis by (simp add: setField_def)
qed

lemma reserved_field_example:
  "mapUpdateOperationToValue tgt
     (FModel ''post'' [(''constructor'', FValue ''string'' (JStr ''Hi'')),
                       (''title'', FValue ''string'' (JStr ''T''))]) reg mf
     = Inr (JObj [(''title'', JStr ''T'')])"
  by (simp add: plainKey_def setField_def reservedKey_def setKey_def)

text \<open>
  C1, as amended. For a raw value that is lossless for its spec, \<open>convertFieldType\<close>
  yields a field, and \<open>mapUpdateOperationToValue\<close> with the same registry and spec maps
  that field back to the raw value without the \<^verbatim>\<open>id\<close> and \<^verbatim>\<open>type\<close> of its
  model-typed records (\<open>stripModels\<close>). For a raw value of a scalar-like or reference
  type, and for a raw array of a list type over such types (\<open>flatValue\<close>), that is the
  raw value itself.
\<close>

theorem round_trip:
  "(lossless reg spec v \<longrightarrow>
      (\<exists>f. convertFieldType v spec reg = Inr (Some f) \<and>
           mapUpdateOperationToValue tgt f reg (Some spec) = Inr (stripModels reg spec v))) \<and>
   (flatValue spec v \<longrightarrow>
      (\<exists>f. convertFieldType v spec reg = Inr (Some f) \<and>
           mapUpdateOperationToValue tgt f reg (Some spec) = Inr v))"
proof -
  have general: "\<exists>f. convertFieldType v spec reg = Inr (Some f) \<and>
           mapUpdateOperationToValue tgt f reg (Some spec) = Inr (stripModels reg spec v)"
    if "lossless reg spec v"
    using lossless_round_trip[OF that, of tgt] by blast
  have flat: "\<exists>f. convertFieldType v spec reg = Inr (Some f) \<and>
           mapUpdateOperationToValue tgt f reg (Some spec) = Inr v"
    if "flatValue spec v"
    using lossless_round_trip[of reg spec v tgt] flat_lossless[OF that, of reg] by auto
  from general flat show ?thesis by blast
qed

theorem round_trip_witness:
  "lossless siteModels pageSpec
     (JObj [(''id'', JStr ''p1''), (''type'', JStr ''page''), (''title'', JStr ''Home''),
        (''sections'', JArr [JObj [(''type'', JStr ''post''), (''title'', JStr ''A''),
                                   (''tags'', JArr [JStr ''x'', JNum 0])],
                             JObj [(''id'', JNum 7), (''title'', JStr ''B'')]])]) \<and>
   stripModels siteModels pageSpec
     (JObj [(''id'', JStr ''p1''), (''type'', JStr ''page''), (''title'', JStr ''Home''),
        (''sections'', JArr [JObj [(''type'', JStr ''post''), (''title'', JStr ''A''),
                                   (''tags'', JArr [JStr ''x'', JNum 0])],
                             JObj [(''id'', JNum 7), (''title'', JStr ''B'')]])])
     = JObj [(''title'', JStr ''Home''),
        (''sections'', JArr [JObj [(''title'', JStr ''A''), (''tags'', JArr [JStr ''x'', JNum 0])],
                             JObj [(''title'', JStr ''B'')]])] \<and>
   (\<exists>f. convertFieldType
          (JObj [(''id'', JStr ''p1''), (''type'', JStr ''page''), (''title'', JStr ''Home''),
             (''sections'', JArr [JObj [(''type'', JStr ''post''), (''title'', JStr ''A''),
                                        (''tags'', JArr [JStr ''x'', JNum 0])],
                                  JObj [(''id'', JNum 7), (''title'', JStr ''B'')]])])
          pageSpec siteModels = Inr (Some f) \<and>
        mapUpdateOperationToValue ES2015 f siteModels (Some pageSpec)
          = Inr (JObj [(''title'', JStr ''Home''),
              (''sections'', JArr [JObj [(''title'', JStr ''A''),
                                         (''tags'', JArr [JStr ''x'', JNum 0])],
                                   JObj [(''title'', JStr ''B'')]])])) \<and>
   flatValue matrixSpec (JArr [JArr [JStr ''a'', JNum 0], JArr []]) \<and>
   (\<exists>f. convertFieldType (JArr [JArr [JStr ''a'', JNum 0], JArr []]) matrixSpec sampleModels
          = Inr (Some f) \<and>
        mapUpdateOperationToValue ES2015 f sampleModels (Some matrixSpec)
          = Inr (JArr [JArr [JStr ''a'', JNum 0], JArr []]))"
proof -
  let ?page = "JObj [(''id'', JStr ''p1''), (''type'', JStr ''page''), (''title'', JStr ''Home''),
        (''sections'', JArr [JObj [(''type'', JStr ''post''), (''title'', JStr ''A''),
                                   (''tags'', JArr [JStr ''x'', JNum 0])],
                             JObj [(''id'', JNum 7), (''title'', JStr ''B'')]])]"
  have keys: "\<not> arrayIndex ''id''" "\<not> arrayIndex ''type''" "\<not> arrayIndex ''title''"
    "\<not> arrayIndex ''sections''" "\<not> arrayIndex ''tags''"
    by (simp_all add: arrayIndex_def index_eval)
  have look: "registered siteModels (JStr ''page'') = Some pageModel"
    "registered siteModels (JStr ''post'') = Some postModel"
    by (simp_all add: registered_def siteModels_def)
  have specs: "find (\<lambda>f. fname f = ''title'') (mfields pageModel) = Some titleSpec"
    "find (\<lambda>f. fname f = ''sections'') (mfields pageModel) = Some sectionsSpec"
    "find (\<lambda>f. fname f = ''title'') (mfields postModel) = Some titleSpec"
    "find (\<lambda>f. fname f = ''tags'') (mfields postModel) = Some tagsSpec"
    by (simp_all add: pageModel_def postModel_def titleSpec_def sectionsSpec_def tagsSpec_def)
  have types: "ftype pageSpec = ''model''" "fmodels pageSpec = [''page'']"
    "ftype sectionSpec = ''model''" "fmodels sectionSpec = [''post'']"
    "ftype titleSpec = ''string''" "ftype tagsSpec = ''list''" "fitems tagsSpec = NoItems"
    "ftype sectionsSpec = ''list''" "fitems sectionsSpec = OneItem sectionSpec"
    by (simp_all add: pageSpec_def sectionSpec_def titleSpec_def tagsSpec_def sectionsSpec_def)
  have l: "lossless siteModels pageSpec ?page"
    by (simp add: lossless.simps look specs types keys scalarTags_def modelType_def getProp_def
        stripIdType_def plainKey_def reservedKey_def enumerationOrder_def keyBefore_def)
  have s: "stripModels siteModels pageSpec ?page
     = JObj [(''title'', JStr ''Home''),
        (''sections'', JArr [JObj [(''title'', JStr ''A''), (''tags'', JArr [JStr ''x'', JNum 0])],
                             JObj [(''title'', JStr ''B'')]])]"
    by (simp add: stripModels.simps look specs types modelType_def getProp_def stripIdType_def)
  have flat: "flatValue matrixSpec (JArr [JArr [JStr ''a'', JNum 0], JArr []])"
    by (simp add: matrixSpec_def tagsSpec_def scalarTags_def)
  from round_trip[where spec = pageSpec and v = ?page and reg = siteModels and tgt = ES2015]
    round_trip[where spec = matrixSpec and v = "JArr [JArr [JStr ''a'', JNum 0], JArr []]"
      and reg = sampleModels and tgt = ES2015]
    l s flat
  show ?thesis by simp
qed

text \<open>
  C1 as stated includes the model type. There the round trip loses the \<^verbatim>\<open>type\<close> (and
  \<^verbatim>\<open>id\<close>) of the nested record, which the converter strips: the record
  \<^verbatim>\<open>{ type: 'post', title: 'Hi' }\<close> comes back as \<^verbatim>\<open>{ title: 'Hi' }\<close>. It also
  loses the fields that \<open>convertFields\<close> passes over: the record
  \<^verbatim>\<open>{ title: '', extra: 'x', tags: [] }\<close> comes back as \<^verbatim>\<open>{ tags: [] }\<close>. And a
  string under a list spec comes back as the array of its characters.
\<close>

theorem round_trip_model_counterexample:
  "convertFieldType (JObj [(''type'', JStr ''post''), (''title'', JStr ''Hi'')]) sectionSpec sampleModels
     = Inr (Some (FModel ''post'' [(''title'', FValue ''string'' (JStr ''Hi''))])) \<and>
   mapUpdateOperationToValue ES2015 (FModel ''post'' [(''title'', FValue ''string'' (JStr ''Hi''))])
       sampleModels (Some sectionSpec) = Inr (JObj [(''title'', JStr ''Hi'')]) \<and>
   mapUpdateOperationToValue ES5 (FModel ''post'' [(''title'', FValue ''string'' (JStr ''Hi''))])
       sampleModels (Some sectionSpec) = Inr (JObj [(''title'', JStr ''Hi'')]) \<and>
   getKey (JObj [(''type'', JStr ''post''), (''title'', JStr ''Hi'')]) ''type'' = JStr ''post'' \<and>
   getKey (JObj [(''title'', JStr ''Hi'')]) ''type'' = JUndefined \<and>
   convertFieldType (JObj [(''title'', JStr []), (''extra'', JStr ''x''), (''tags'', JArr [])])
       sectionSpec sampleModels = Inr (Some (FModel ''post'' [(''tags'', FList [])])) \<and>
   mapUpdateOperationToValue ES2015 (FModel ''post'' [(''tags'', FList [])])
       sampleModels (Some sectionSpec) = Inr (JObj [(''tags'', JArr [])]) \<and>
   convertFieldType (JStr ''ab'') tagsSpec sampleModels
     = Inr (Some (FList [FValue ''string'' (JStr ''a''), FValue ''string'' (JStr ''b'')])) \<and>
   mapUpdateOperationToValue ES2015
       (FList [FValue ''string'' (JStr ''a''), FValue ''string'' (JStr ''b'')])
       sampleModels (Some tagsSpec) = Inr (JArr [JStr ''a'', JStr ''b''])"
  by (simp add: convertFieldType.simps sectionSpec_def scalarTags_def modelType_def getProp_def
      lookupModel_def sampleModels_def postModel_def titleSpec_def tagsSpec_def stripIdType_def
      plainKey_def setField_def reservedKey_def setKey_def stringSpec_def listItemsModel_def
      listItemModelField_def)

subsection \<open>The object case\<close>

lemma mapObjectFields_ES2015: "mapObjectFields ES2015 fs reg mf = Inr u \<Longrightarrow> fs = []"
  by (cases fs) (auto split: option.splits sum.splits)

lemma object_case_result_empty:
  "mapUpdateOperationToValue tgt (FObject fs) reg mf = Inr v \<Longrightarrow>
     v = JObj [] \<and> (tgt = ES2015 \<longrightarrow> fs = [])"
  by (auto split: sum.splits dest: mapObjectFields_ES2015)

text \<open>
  C2 asks that an object-typed update field maps to a raw mapping holding the mapped
  value of every child. The source builds \<^verbatim>\<open>object\<close> and returns it, but writes each
  child to \<^verbatim>\<open>result\<close>: for the update field
  \<^verbatim>\<open>{ type: 'object', fields: { name: { type: 'string', value: 'Ann' } } }\<close> it raises a
  ReferenceError, or returns the empty object where \<^verbatim>\<open>const\<close> was compiled to
  \<^verbatim>\<open>var\<close>; and with no field spec it raises a TypeError. In no case does the result
  hold the child (\<open>object_case_result_empty\<close>: whatever the fields, a result is the
  empty object).
\<close>

theorem object_case_loses_children:
  "mapUpdateOperationToValue ES2015
       (FObject [(''name'', FValue ''string'' (JStr ''Ann''))]) reg (Some authorSpec)
     = Inl ReferenceError \<and>
   mapUpdateOperationToValue ES5
       (FObject [(''name'', FValue ''string'' (JStr ''Ann''))]) reg (Some authorSpec)
     = Inr (JObj []) \<and>
   mapUpdateOperationToValue tgt
       (FObject [(''name'', FValue ''string'' (JStr ''Ann''))]) reg None
     = Inl TypeError"
  by (simp add: authorSpec_def)

section \<open>Properties of the record editor\<close>

lemma getProp_replaceKey_same: "k \<in> fst ` set kvs \<Longrightarrow> getProp (replaceKey k v kvs) k = v"
  by (induction kvs) (auto simp: getProp_def)

lemma getProp_insertKey_same: "getProp (insertKey k v kvs) k = v \<or> k \<in> fst ` set kvs"
  by (induction kvs) (auto simp: getProp_def)

lemma getProp_setKey_same: "getProp (setKey k v kvs) k = v"
  using getProp_replaceKey_same[of k kvs v] getProp_insertKey_same[of k v kvs]
  by (auto simp: setKey_def)




text \<open>The place of a new key, and of a key that is there already.\<close>

lemma setKey_examples:
  "setKey ''1'' v [(''0'', a), (''2'', b), (''x'', c)]
     = [(''0'', a), (''1'', v), (''2'', b), (''x'', c)] \<and>
   setKey ''10'' v [(''9'', a), (''x'', c)] = [(''9'', a), (''10'', v), (''x'', c)] \<and>
   setKey ''y'' v [(''0'', a), (''x'', c)] = [(''0'', a), (''x'', c), (''y'', v)] \<and>
   setKey ''01'' v [(''9'', a), (''x'', c)] = [(''9'', a), (''x'', c), (''01'', v)] \<and>
   setKey ''x'' v [(''0'', a), (''x'', c), (''y'', b)] = [(''0'', a), (''x'', v), (''y'', b)]"
  by (simp add: setKey_def arrayIndex_def index_eval)

text \<open>\<open>setField\<close> is \<^verbatim>\<open>_.set\<close> at a path of one key.\<close>

lemma setField_lodashSet: "lodashSet (JObj result) [k] v = Inr (JObj (setField k v result))"
  by (simp add: lodashSet_def setField_def)

text \<open>
  At a reserved key \<^verbatim>\<open>_.set\<close> stops; an object it created on the way stays.
\<close>

lemma baseSet_reserved: "reservedKey k \<Longrightarrow> baseSet d (k # ks) v = Inr d"
  by (cases ks) simp_all

lemma lodashSet_reserved_example:
  "lodashSet (JObj [(''a'', JNum 1)]) [''a'', ''constructor'', ''x''] (JStr ''v'')
     = Inr (JObj [(''a'', JObj [])]) \<and>
   lodashSet (JObj [(''a'', JNum 1)]) [''__proto__'', ''x''] (JStr ''v'')
     = Inr (JObj [(''a'', JNum 1)])"
  by (simp add: lodashSet_def reservedKey_def getProp_def setKey_def index_eval)

lemma baseGet_not_object: "\<not> isObject d \<Longrightarrow> \<not> isObject (baseGet d ks)"
proof (induction ks arbitrary: d)
  case Nil
  then show ?case by simp
next
  case (Cons k ks)
  have "\<not> isObject (getKey d k)" using Cons.prems by (cases d) auto
  with Cons.IH show ?case by simp
qed

lemma baseGet_array_object: "baseGet d ks = JArr arr \<Longrightarrow> isObject d"
  using baseGet_not_object[of d ks] by auto

lemma getKey_object: "isObject (getKey d k) \<Longrightarrow> isObject d"
  by (cases d) (auto split: if_splits)

lemma assignValue_present:
  "isObject (getKey d k) \<Longrightarrow> \<exists>d'. assignValue d k c = Inr d' \<and> getKey d' k = c \<and> isObject d'"
  by (cases d) (auto simp: getProp_setKey_same split: if_splits)

lemma baseSet_existing:
  "ks \<noteq> [] \<Longrightarrow> baseGet d ks = JArr arr \<Longrightarrow> \<forall>k\<in>set ks. \<not> reservedKey k \<Longrightarrow>
     \<exists>d'. baseSet d ks v = Inr d' \<and> baseGet d' ks = v \<and> isObject d'"
proof (induction d ks v arbitrary: arr rule: baseSet.induct)
  case (1 nested v)
  then show ?case by simp
next
  case (2 nested k v)
  then have "isObject (getKey nested k)" by (auto split: if_splits)
  from assignValue_present[OF this, of v] obtain d' where
    a: "assignValue nested k v = Inr d'" and g: "getKey d' k = v" and o: "isObject d'" by blast
  have "\<not> nullish d'" using o by (cases d') auto
  with a g o "2.prems"(3) show ?case by simp
next
  case (3 nested k k' ks v)
  let ?c = "getKey nested k"
  from "3.prems" have nr: "\<not> reservedKey k" and nrs: "\<forall>k\<in>set (k' # ks). \<not> reservedKey k"
    by auto
  from "3.prems" have get: "baseGet ?c (k' # ks) = JArr arr" by (auto split: if_splits)
  then have obj: "isObject ?c" by (rule baseGet_array_object)
  from "3.IH"[OF nr refl, of ?c arr] obj get nrs
  obtain c' where set: "baseSet ?c (k' # ks) v = Inr c'" and got: "baseGet c' (k' # ks) = v"
    by auto
  from assignValue_present[OF obj, of c'] obtain d' where
    a: "assignValue nested k c' = Inr d'" and g: "getKey d' k = c'" and o: "isObject d'" by blast
  have nn: "\<not> nullish d'" using o by (cases d') auto
  show ?case using set got a g o nn obj nr by (simp add: Let_def)
qed




lemma assignValue_array: "assignValue (JArr xs) k c = Inr d' \<Longrightarrow> \<exists>ys. d' = JArr ys"
  by (auto split: if_splits)












section \<open>Properties of the update\<close>

subsection \<open>Reordering\<close>

text \<open>
  C7, as amended. When the field path of a reorder operation holds an array and none of
  its keys is one that \<^verbatim>\<open>_.set\<close> refuses, the operation succeeds and afterwards the
  path holds the array built from \<open>order\<close>: position \<open>k\<close> of the new array is the
  element of the old one at index \<open>order ! k\<close> (undefined when that is no index of the
  old array). For the array \<^verbatim>\<open>[A, B, C]\<close> and the order \<^verbatim>\<open>[2, 0, 1]\<close> the result is
  \<^verbatim>\<open>[C, A, B]\<close>.
\<close>

theorem reorder_replaces_array:
  assumes "lodashGet data fieldPath = JArr arr"
    and "\<forall>k\<in>set fieldPath. \<not> reservedKey k"
  shows "\<exists>data'. applyOperation tgt modelMap data (OpReorder fieldPath order) = Inr data' \<and>
           lodashGet data' fieldPath = JArr (map (elementAt arr) order) \<and>
           ((\<forall>i\<in>set order. 0 \<le> i \<and> nat i < length arr) \<longrightarrow>
              map (elementAt arr) order = map (\<lambda>i. arr ! nat i) order)"
proof -
  from assms(1) have ne: "fieldPath \<noteq> []" and get: "baseGet data fieldPath = JArr arr"
    by (auto simp: lodashGet_def split: if_splits)
  from get have obj: "isObject data" by (rule baseGet_array_object)
  from baseSet_existing[OF ne get assms(2), of "JArr (map (elementAt arr) order)"]
  obtain d' where "baseSet data fieldPath (JArr (map (elementAt arr) order)) = Inr d'"
    and "baseGet d' fieldPath = JArr (map (elementAt arr) order)" by blast
  then show ?thesis
    using assms(1) ne obj by (auto simp: lodashSet_def lodashGet_def elementAt_def)
qed

theorem reorder_replaces_array_witness:
  "lodashGet (JObj [(''title'', JStr ''Hi''), (''tags'', JArr [JStr ''A'', JStr ''B'', JStr ''C''])])
      [''tags''] = JArr [JStr ''A'', JStr ''B'', JStr ''C''] \<and>
   \<not> reservedKey ''tags'' \<and>
   applyOperation ES2015 sampleModels
      (JObj [(''title'', JStr ''Hi''), (''tags'', JArr [JStr ''A'', JStr ''B'', JStr ''C''])])
      (OpReorder [''tags''] [2, 0, 1])
     = Inr (JObj [(''title'', JStr ''Hi''), (''tags'', JArr [JStr ''C'', JStr ''A'', JStr ''B''])]) \<and>
   lodashGet (JObj [(''title'', JStr ''Hi''), (''tags'', JArr [JStr ''C'', JStr ''A'', JStr ''B''])])
      [''tags''] = JArr (map (elementAt [JStr ''A'', JStr ''B'', JStr ''C'']) [2, 0, 1]) \<and>
   map (elementAt [JStr ''A'', JStr ''B'', JStr ''C'']) [2, 0, 1] = [JStr ''C'', JStr ''A'', JStr ''B'']"
proof -
  let ?d = "JObj [(''title'', JStr ''Hi''), (''tags'', JArr [JStr ''A'', JStr ''B'', JStr ''C''])]"
  have g: "lodashGet ?d [''tags''] = JArr [JStr ''A'', JStr ''B'', JStr ''C'']"
    by (simp add: lodashGet_def getProp_def)
  have r: "\<not> reservedKey ''tags''" by (simp add: reservedKey_def)
  then have rs: "\<forall>k\<in>set [''tags'']. \<not> reservedKey k" by simp
  have run: "applyOperation ES2015 sampleModels ?d (OpReorder [''tags''] [2, 0, 1])
     = Inr (JObj [(''title'', JStr ''Hi''), (''tags'', JArr [JStr ''C'', JStr ''A'', JStr ''B''])])"
    by (simp add: lodashGet_def lodashSet_def getProp_def reservedKey_def setKey_def
        elementAt_def)
  have m: "map (elementAt [JStr ''A'', JStr ''B'', JStr ''C'']) [2, 0, 1]
     = [JStr ''C'', JStr ''A'', JStr ''B'']" by (simp add: elementAt_def)
  from reorder_replaces_array[OF g rs, of ES2015 sampleModels "[2, 0, 1]"] g r run m
  show ?thesis by auto
qed

text \<open>
  C7 as stated covers every field path that holds an array. \<^verbatim>\<open>_.set\<close> writes
  nothing at a path with the key \<^verbatim>\<open>prototype\<close>, \<^verbatim>\<open>constructor\<close> or
  \<^verbatim>\<open>__proto__\<close>: the array \<^verbatim>\<open>[A, B, C]\<close> under the key \<^verbatim>\<open>prototype\<close> is read and
  the new array is built, but the record stays as it was.
\<close>

theorem reorder_reserved_counterexample:
  "lodashGet (JObj [(''prototype'', JArr [JStr ''A'', JStr ''B'', JStr ''C''])]) [''prototype'']
     = JArr [JStr ''A'', JStr ''B'', JStr ''C''] \<and>
   applyOperation ES2015 sampleModels
      (JObj [(''prototype'', JArr [JStr ''A'', JStr ''B'', JStr ''C''])])
      (OpReorder [''prototype''] [2, 0, 1])
     = Inr (JObj [(''prototype'', JArr [JStr ''A'', JStr ''B'', JStr ''C''])]) \<and>
   map (elementAt [JStr ''A'', JStr ''B'', JStr ''C'']) [2, 0, 1]
     = [JStr ''C'', JStr ''A'', JStr ''B''] \<and>
   [JStr ''A'', JStr ''B'', JStr ''C''] \<noteq> [JStr ''C'', JStr ''A'', JStr ''B'']"
  by (simp add: lodashGet_def lodashSet_def getProp_def reservedKey_def elementAt_def)

subsection \<open>What a set operation leaves alone\<close>





subsection \<open>The identity of the document\<close>

text \<open>
  C8. Whatever operations were applied, and whether the written record converts to a new
  document or the input document is returned in its place (as it is when the registry
  holds no model for the record), the document that \<open>updateDocument\<close> returns has the
  \<^verbatim>\<open>id\<close> of the input document.
\<close>

theorem updateDocument_keeps_id:
  "updateDocument tgt dates fileData document operations modelMap = Inr (data, d)
     \<Longrightarrow> doc_id d = doc_id document"
  unfolding updateDocument_def convertDocument_def
  by (auto split: sum.splits option.splits if_splits)

theorem updateDocument_keeps_id_witness:
  "updateDocument ES2015 (''2020'', ''2022'') sampleRecord sampleDocument
      [OpSet [''title''] (FValue ''string'' (JStr ''Hello'')) titleSpec] sampleModels
    = Inr (JObj [(''id'', JStr ''x''), (''type'', JStr ''post''), (''title'', JStr ''Hello''),
             (''tags'', JArr [JStr ''a'', JStr ''b''])],
           sampleDocument\<lparr>doc_updatedAt := ''2022'',
             doc_fields := [(''title'', FValue ''string'' (JStr ''Hello'')),
               (''tags'', FList [FValue ''string'' (JStr ''a''),
                                 FValue ''string'' (JStr ''b'')])]\<rparr>) \<and>
   doc_id (sampleDocument\<lparr>doc_updatedAt := ''2022'',
             doc_fields := [(''title'', FValue ''string'' (JStr ''Hello'')),
               (''tags'', FList [FValue ''string'' (JStr ''a''),
                                 FValue ''string'' (JStr ''b'')])]\<rparr>)
     = doc_id sampleDocument \<and>
   updateDocument ES2015 (''2020'', ''2022'') sampleRecord sampleDocument
      [OpSet [''title''] (FValue ''string'' (JStr ''Hello'')) titleSpec] Map.empty
    = Inr (JObj [(''id'', JStr ''x''), (''type'', JStr ''post''), (''title'', JStr ''Hello''),
             (''tags'', JArr [JStr ''a'', JStr ''b''])], sampleDocument)"
proof -
  have run: "updateDocument ES2015 (''2020'', ''2022'') sampleRecord sampleDocument
      [OpSet [''title''] (FValue ''string'' (JStr ''Hello'')) titleSpec] sampleModels
    = Inr (JObj [(''id'', JStr ''x''), (''type'', JStr ''post''), (''title'', JStr ''Hello''),
             (''tags'', JArr [JStr ''a'', JStr ''b''])],
           sampleDocument\<lparr>doc_updatedAt := ''2022'',
             doc_fields := [(''title'', FValue ''string'' (JStr ''Hello'')),
               (''tags'', FList [FValue ''string'' (JStr ''a''),
                                 FValue ''string'' (JStr ''b'')])]\<rparr>)"
    by code_simp
  have fallback: "updateDocument ES2015 (''2020'', ''2022'') sampleRecord sampleDocument
      [OpSet [''title''] (FValue ''string'' (JStr ''Hello'')) titleSpec] Map.empty
    = Inr (JObj [(''id'', JStr ''x''), (''type'', JStr ''post''), (''title'', JStr ''Hello''),
             (''tags'', JArr [JStr ''a'', JStr ''b''])], sampleDocument)"
    by code_simp
  from updateDocument_keeps_id[OF run] updateDocument_keeps_id[OF fallback] run fallback
  show ?thesis by simp
qed

end
